theory Spec2Isabelle
  imports Complex_Main "HOL-Library.Sublist" "HOL-Library.Log_Nat"
begin

section \<open>Data model of \<^verbatim>\<open>DNAMethylationAnalyzer\<close>\<close>

text \<open>
  The analyzer of \<^verbatim>\<open>src/biolearn/DNAm_Age_Relationships.py\<close> holds two pandas
  data frames read with \<^verbatim>\<open>pd.read_csv\<close>:
  \<^item> \<^verbatim>\<open>methylation_data\<close>: the first column is \<^verbatim>\<open>cpgSite\<close> (the probe identifier, a
    text label), every further column is one sample;
  \<^item> \<^verbatim>\<open>metadata\<close>: one row per sample with \<^verbatim>\<open>SampleID\<close>, \<^verbatim>\<open>Age\<close> and categorical fields.

  A cell that pandas holds as \<^verbatim>\<open>NaN\<close> (an empty CSV field, or an undefined statistic) is
  \<open>None\<close>. Methylation levels are real numbers, and arithmetic on them is exact unless
  a definition says that it rounds to 64 bits.
\<close>

type_synonym cell = "real option"

record probe_row =
  cpgSite :: "string option"
  levels :: "cell list"

record methylation =
  sample_columns :: "string list"
  probe_rows :: "probe_row list"

record sample_meta =
  SampleID :: string
  Age :: cell
  categories :: "string option list"

record metadata_table =
  category_fields :: "string list"
  sample_rows :: "sample_meta list"

record analyzer =
  methylation_data :: methylation
  metadata :: metadata_table

text \<open>
  The exceptions. \<open>KeyError\<close>, \<open>TypeError\<close>, \<open>ValueError\<close> and \<open>AttributeError\<close> are what
  pandas, numpy, scipy and scikit-learn raise under the calls of the source.
  \<open>GroupNotFoundError\<close> and \<open>ProbeNotFoundError\<close> are the names the specification uses;
  the source defines neither class and nothing below constructs them.
\<close>

datatype py_error =
  KeyError | TypeError | ValueError | AttributeError | GroupNotFoundError | ProbeNotFoundError

text \<open>
  A data frame is rectangular: every row has one cell per sample column. pandas
  renames repeated column names while reading, so the sample columns are distinct and
  none of them is called \<^verbatim>\<open>cpgSite\<close>.
\<close>

definition frame_ok :: "methylation \<Rightarrow> bool" where
  "frame_ok m \<longleftrightarrow>
     list_all (\<lambda>r. length (levels r) = length (sample_columns m)) (probe_rows m) \<and>
     distinct (sample_columns m) \<and> ''cpgSite'' \<notin> set (sample_columns m)"

section \<open>The pandas and numpy primitives the source calls\<close>

text \<open>\<^verbatim>\<open>Series.dropna()\<close>: the available values, in order.\<close>

fun dropna :: "'a option list \<Rightarrow> 'a list" where
  "dropna [] = []"
| "dropna (None # cs) = dropna cs"
| "dropna (Some v # cs) = v # dropna cs"

definition mean :: "real list \<Rightarrow> real" where
  "mean vs = sum_list vs / real (length vs)"

text \<open>\<^verbatim>\<open>mean(skipna=True)\<close>: the mean of the available values, \<^verbatim>\<open>NaN\<close> when there is none.\<close>

definition nanmean :: "cell list \<Rightarrow> cell" where
  "nanmean cs = (let vs = dropna cs in if vs = [] then None else Some (mean vs))"

text \<open>
  \<^verbatim>\<open>var(skipna=True, ddof=1)\<close>: the sample variance of the available values, \<^verbatim>\<open>NaN\<close>
  when fewer than two are available. \<open>mean\<close> and \<open>sample_var\<close> are in exact
  arithmetic; the variance with every operation rounded to 64 bits, as pandas computes
  it, is \<open>f64_var\<close> below.
\<close>

definition sample_var :: "real list \<Rightarrow> cell" where
  "sample_var vs =
     (if length vs \<le> 1 then None
      else Some (sum_list (map (\<lambda>v. (v - mean vs)\<^sup>2) vs) / real (length vs - 1)))"

definition nanvar :: "cell list \<Rightarrow> cell" where
  "nanvar cs = sample_var (dropna cs)"

text \<open>A comparison \<^verbatim>\<open>x < t\<close> in which \<^verbatim>\<open>x\<close> may be \<^verbatim>\<open>NaN\<close>: \<^verbatim>\<open>NaN < t\<close> is false.\<close>

fun nan_less :: "cell \<Rightarrow> real \<Rightarrow> bool" where
  "nan_less None t = False"
| "nan_less (Some v) t = (v < t)"

text \<open>Position of a label in an index, first match.\<close>

fun index_of :: "string \<Rightarrow> string list \<Rightarrow> nat option" where
  "index_of l [] = None"
| "index_of l (c # cs) = (if l = c then Some 0 else map_option Suc (index_of l cs))"

text \<open>The cell of a row in the \<open>j\<close>-th sample column.\<close>

definition cell_at :: "probe_row \<Rightarrow> nat \<Rightarrow> cell" where
  "cell_at r j = (if j < length (levels r) then levels r ! j else None)"

section \<open>\<^verbatim>\<open>identify_stable_cpg_sites\<close>\<close>

text \<open>
  \<^verbatim>\<open>variances = self.methylation_data.iloc[:, 1:].var(axis=1)\<close>: one variance per row
  over the columns after the first;
  \<^verbatim>\<open>self.methylation_data[variances < threshold]['cpgSite'].tolist()\<close>: the rows under
  the boolean mask, their identifier column as a list.
\<close>

definition row_variances :: "methylation \<Rightarrow> cell list" where
  "row_variances m = map (\<lambda>r. nanvar (levels r)) (probe_rows m)"

definition boolean_mask :: "probe_row list \<Rightarrow> bool list \<Rightarrow> probe_row list" where
  "boolean_mask rows flags = map fst (filter snd (zip rows flags))"

definition identify_stable_cpg_sites :: "analyzer \<Rightarrow> real \<Rightarrow> string option list" where
  "identify_stable_cpg_sites st threshold =
     (let variances = row_variances (methylation_data st);
          stable_cpg_sites =
            boolean_mask (probe_rows (methylation_data st))
              (map (\<lambda>v. nan_less v threshold) variances)
      in map cpgSite stable_cpg_sites)"

text \<open>The reading of the specification: a probe is stable when its variance is defined
  and strictly below the threshold.\<close>

definition stable_row :: "real \<Rightarrow> probe_row \<Rightarrow> bool" where
  "stable_row threshold r =
     (case nanvar (levels r) of None \<Rightarrow> False | Some v \<Rightarrow> v < threshold)"

section \<open>\<^verbatim>\<open>identify_stable_cpg_sites\<close> with the variance as pandas computes it\<close>

text \<open>
  \<open>sample_var\<close> above is the variance in exact arithmetic. pandas computes it in 64-bit
  floating point, where every operation rounds, so the two differ in the last digits:
  enough to move a row across a threshold. The method is therefore stated a second time
  with the variance of two or more available values as a parameter \<open>v\<close>; pandas itself
  gives \<^verbatim>\<open>NaN\<close> when fewer than two values are available (\<^verbatim>\<open>count <= ddof\<close>). With
  \<open>v = sample_var\<close> this is the definition above.
\<close>

definition nanvar_with :: "(real list \<Rightarrow> cell) \<Rightarrow> cell list \<Rightarrow> cell" where
  "nanvar_with v cs = (let vs = dropna cs in if length vs \<le> 1 then None else v vs)"

definition identify_stable_cpg_sites_with ::
  "(real list \<Rightarrow> cell) \<Rightarrow> analyzer \<Rightarrow> real \<Rightarrow> string option list" where
  "identify_stable_cpg_sites_with v st threshold =
     (let variances = map (\<lambda>r. nanvar_with v (levels r)) (probe_rows (methylation_data st));
          stable_cpg_sites =
            boolean_mask (probe_rows (methylation_data st))
              (map (\<lambda>x. nan_less x threshold) variances)
      in map cpgSite stable_cpg_sites)"


subsection \<open>Binary64 arithmetic\<close>

text \<open>
  A finite double is a real number; \<open>f64 x\<close> is the double nearest to \<open>x\<close>, ties to the
  even significand (53 bits, exponents from -1022, subnormal below), and \<open>None\<close> when
  the rounded value leaves the range, where the machine has an infinity. In the
  computation of the variance an infinity can only lead to an infinity or a \<^verbatim>\<open>NaN\<close>,
  neither of which is below a threshold, so \<open>None\<close> stands for both.
\<close>

definition round_half_even :: "real \<Rightarrow> int" where
  "round_half_even y =
     (let f = \<lfloor>y\<rfloor>; d = y - of_int f
      in if d < 1/2 then f else if 1/2 < d then f + 1 else if even f then f else f + 1)"

text \<open>The exponent of a positive number: \<open>2 ^ e \<le> x < 2 ^ (e + 1)\<close>.\<close>

definition ilog2 :: "real \<Rightarrow> int" where
  "ilog2 x = (if 1 \<le> x then bitlen \<lfloor>x\<rfloor> - 1 else - bitlen (\<lceil>1 / x\<rceil> - 1))"

definition f64 :: "real \<Rightarrow> real option" where
  "f64 x =
     (if x = 0 then Some 0
      else let e = max (ilog2 \<bar>x\<bar>) (- 1022);
               y = of_int (round_half_even (x / 2 powi (e - 52))) * 2 powi (e - 52)
           in if \<bar>y\<bar> < 2 ^ 1024 then Some y else None)"




text \<open>The doubles that the decimal texts \<^verbatim>\<open>0.1\<close> and \<^verbatim>\<open>1e-40\<close> are read as.\<close>

definition tenth :: real where
  "tenth = 3602879701896397 / 2 ^ 55"

definition threshold_1e_40 :: real where
  "threshold_1e_40 = 1225996432692711 / 2 ^ 183"

section \<open>\<^verbatim>\<open>preprocess_data\<close>\<close>

text \<open>
  \<^verbatim>\<open>self.methylation_data.dropna(how='all', inplace=True)\<close> drops the rows in which
  every cell is \<^verbatim>\<open>NaN\<close>. No \<^verbatim>\<open>subset\<close> is given, so the \<^verbatim>\<open>cpgSite\<close> cell counts as a cell
  of the row.
\<close>

definition row_all_missing :: "probe_row \<Rightarrow> bool" where
  "row_all_missing r \<longleftrightarrow> cpgSite r = None \<and> list_all (\<lambda>c. c = None) (levels r)"

definition dropna_all :: "methylation \<Rightarrow> methylation" where
  "dropna_all m = m\<lparr>probe_rows := filter (\<lambda>r. \<not> row_all_missing r) (probe_rows m)\<rparr>"

text \<open>
  \<^verbatim>\<open>self.methylation_data.mean()\<close> has the default \<^verbatim>\<open>axis=0\<close>: it is the series of the
  column means (one per sample, over the probes), each over the available cells of its
  column.
\<close>

definition column_means :: "methylation \<Rightarrow> cell list" where
  "column_means m =
     map (\<lambda>j. nanmean (map (\<lambda>r. cell_at r j) (probe_rows m))) [0..<length (sample_columns m)]"

definition series_at :: "cell list \<Rightarrow> nat \<Rightarrow> cell" where
  "series_at s j = (if j < length s then s ! j else None)"

text \<open>
  \<^verbatim>\<open>fillna(series, inplace=True)\<close>: a \<^verbatim>\<open>NaN\<close> cell takes the value the series holds for
  its column; it stays \<^verbatim>\<open>NaN\<close> when that value is \<^verbatim>\<open>NaN\<close>. The series has no entry for
  \<^verbatim>\<open>cpgSite\<close>.
\<close>

definition fillna_cell :: "cell \<Rightarrow> cell \<Rightarrow> cell" where
  "fillna_cell c v = (case c of None \<Rightarrow> v | Some x \<Rightarrow> Some x)"

definition fillna_row :: "cell list \<Rightarrow> probe_row \<Rightarrow> probe_row" where
  "fillna_row s r =
     r\<lparr>levels := map (\<lambda>j. fillna_cell (levels r ! j) (series_at s j)) [0..<length (levels r)]\<rparr>"

definition fillna :: "cell list \<Rightarrow> methylation \<Rightarrow> methylation" where
  "fillna s m = m\<lparr>probe_rows := map (fillna_row s) (probe_rows m)\<rparr>"

text \<open>
  The two generations of pandas differ on \<^verbatim>\<open>DataFrame.mean()\<close> over a frame with a text
  column. Before 2.0 the default \<^verbatim>\<open>numeric_only=None\<close> leaves the text column out; from
  2.0 on the default is \<^verbatim>\<open>numeric_only=False\<close> and the call raises \<^verbatim>\<open>TypeError\<close> as soon
  as the \<^verbatim>\<open>cpgSite\<close> column holds a label. The exception leaves \<^verbatim>\<open>fillna\<close> uncalled, after
  \<^verbatim>\<open>dropna\<close> has already changed the stored frame.
\<close>

datatype pandas_api = Pandas1 | Pandas2

definition mean_raises :: "pandas_api \<Rightarrow> methylation \<Rightarrow> bool" where
  "mean_raises api m \<longleftrightarrow> api = Pandas2 \<and> list_ex (\<lambda>r. cpgSite r \<noteq> None) (probe_rows m)"

definition preprocess_data :: "pandas_api \<Rightarrow> analyzer \<Rightarrow> py_error option \<times> analyzer" where
  "preprocess_data api st =
     (let dropped = dropna_all (methylation_data st) in
      if mean_raises api dropped
      then (Some TypeError, st\<lparr>methylation_data := dropped\<rparr>)
      else (None, st\<lparr>methylation_data := fillna (column_means dropped) dropped\<rparr>))"

section \<open>\<^verbatim>\<open>identify_significant_cpg_sites\<close>\<close>

text \<open>
  \<^verbatim>\<open>self.metadata[group_field] == group\<close>: the column is looked up by name (\<^verbatim>\<open>KeyError\<close>
  when the table has no such column) and compared with the text \<^verbatim>\<open>group\<close> cell by cell. A
  missing cell equals nothing; the numeric \<^verbatim>\<open>Age\<close> column equals no text.
\<close>

definition category_at :: "sample_meta \<Rightarrow> nat \<Rightarrow> string option" where
  "category_at s i = (if i < length (categories s) then categories s ! i else None)"

definition field_equals :: "metadata_table \<Rightarrow> string \<Rightarrow> string \<Rightarrow> py_error + bool list" where
  "field_equals md group_field g =
     (if group_field = ''SampleID'' then Inr (map (\<lambda>s. SampleID s = g) (sample_rows md))
      else if group_field = ''Age'' then Inr (map (\<lambda>s. False) (sample_rows md))
      else case index_of group_field (category_fields md) of
             None \<Rightarrow> Inl KeyError
           | Some i \<Rightarrow> Inr (map (\<lambda>s. category_at s i = Some g) (sample_rows md)))"

text \<open>\<^verbatim>\<open>self.metadata[self.metadata[group_field] == group]['SampleID'].tolist()\<close>\<close>

definition group_sample_ids :: "metadata_table \<Rightarrow> string \<Rightarrow> string \<Rightarrow> py_error + string list" where
  "group_sample_ids md group_field g =
     (case field_equals md group_field g of
        Inl e \<Rightarrow> Inl e
      | Inr flags \<Rightarrow> Inr (map SampleID (map fst (filter snd (zip (sample_rows md) flags)))))"

text \<open>
  A row handed out by \<^verbatim>\<open>iterrows()\<close> is a series over all the column labels of the
  frame: under \<^verbatim>\<open>cpgSite\<close> it holds the identifier, under a sample column the level.
  \<^verbatim>\<open>row[labels]\<close> raises \<^verbatim>\<open>KeyError\<close> when a label is not a column.

  \<^verbatim>\<open>iterrows()\<close> builds each row from \<^verbatim>\<open>self.values\<close>, one array for the whole frame. As
  soon as the \<^verbatim>\<open>cpgSite\<close> column holds a label that array, every row and every selection
  \<^verbatim>\<open>row[labels].dropna()\<close> have the dtype \<^verbatim>\<open>object\<close>; the rows are \<^verbatim>\<open>float64\<close> only when no
  row has an identifier.
\<close>

datatype scalar = Label string | Level real

definition series_get :: "string list \<Rightarrow> probe_row \<Rightarrow> string \<Rightarrow> py_error + scalar option" where
  "series_get cols r l =
     (if l = ''cpgSite'' then Inr (map_option Label (cpgSite r))
      else case index_of l cols of
             None \<Rightarrow> Inl KeyError
           | Some j \<Rightarrow> Inr (map_option Level (cell_at r j)))"

fun series_select :: "string list \<Rightarrow> probe_row \<Rightarrow> string list \<Rightarrow> py_error + scalar option list" where
  "series_select cols r [] = Inr []"
| "series_select cols r (l # ls) =
     (case series_get cols r l of
        Inl e \<Rightarrow> Inl e
      | Inr v \<Rightarrow> (case series_select cols r ls of
                   Inl e \<Rightarrow> Inl e
                 | Inr vs \<Rightarrow> Inr (v # vs)))"

definition object_rows :: "methylation \<Rightarrow> bool" where
  "object_rows m \<longleftrightarrow> list_ex (\<lambda>r. cpgSite r \<noteq> None) (probe_rows m)"

fun as_floats :: "scalar list \<Rightarrow> real list option" where
  "as_floats [] = Some []"
| "as_floats (Level x # xs) = map_option (Cons x) (as_floats xs)"
| "as_floats (Label l # xs) = None"

text \<open>
  \<^verbatim>\<open>scipy.stats.ttest_ind(a, b, equal_var=False)\<close>, its p-value (\<open>None\<close> is \<^verbatim>\<open>NaN\<close>).
  The source hands over the selections as they are, without a cast to \<^verbatim>\<open>float\<close>.

  On \<^verbatim>\<open>float64\<close> samples the test runs: an empty sample gives \<^verbatim>\<open>NaN\<close>, and on two
  non-empty samples the p-value is the one scipy computes, in 64-bit floating point; it
  is the parameter \<open>pvalue\<close>.

  On \<^verbatim>\<open>object\<close> samples two releases of scipy are modelled.
  \<^item> As in scipy 1.11: an empty sample gives \<^verbatim>\<open>NaN\<close> before any value is read. Otherwise
    the variance is taken with a check of the precision lost, which asks
    \<^verbatim>\<open>np.finfo\<close> for the resolution of the dtype and raises \<^verbatim>\<open>ValueError\<close> on \<^verbatim>\<open>object\<close>;
    a text value among the samples makes the mean before it raise \<^verbatim>\<open>TypeError\<close>.
  \<^item> As in scipy 1.17: the call raises \<^verbatim>\<open>AttributeError\<close> on every \<^verbatim>\<open>object\<close> sample, empty
    or not.
\<close>

datatype scipy_api = Scipy_1_11 | Scipy_1_17

definition ttest_ind ::
  "scipy_api \<Rightarrow> (real list \<Rightarrow> real list \<Rightarrow> cell) \<Rightarrow> bool \<Rightarrow> scalar list \<Rightarrow> scalar list
     \<Rightarrow> py_error + cell" where
  "ttest_ind api pvalue as_object a b =
     (if as_object then
        (case api of
           Scipy_1_17 \<Rightarrow> Inl AttributeError
         | Scipy_1_11 \<Rightarrow>
             if a = [] \<or> b = [] then Inr None
             else (case as_floats (a @ b) of
                     None \<Rightarrow> Inl TypeError
                   | Some xs \<Rightarrow> Inl ValueError))
      else
        (case (as_floats a, as_floats b) of
           (Some xs, Some ys) \<Rightarrow> if xs = [] \<or> ys = [] then Inr None else Inr (pvalue xs ys)
         | _ \<Rightarrow> Inl TypeError))"

text \<open>The body of the loop up to the test: the p-value of one row.\<close>

definition row_pvalue ::
  "scipy_api \<Rightarrow> (real list \<Rightarrow> real list \<Rightarrow> cell) \<Rightarrow> methylation \<Rightarrow> string list \<Rightarrow> string list
     \<Rightarrow> probe_row \<Rightarrow> py_error + cell" where
  "row_pvalue api pvalue m group1_samples group2_samples row =
     (case series_select (sample_columns m) row group1_samples of
        Inl e \<Rightarrow> Inl e
      | Inr s1 \<Rightarrow>
          (case series_select (sample_columns m) row group2_samples of
             Inl e \<Rightarrow> Inl e
           | Inr s2 \<Rightarrow> ttest_ind api pvalue (object_rows m) (dropna s1) (dropna s2)))"

text \<open>
  \<^verbatim>\<open>for index, row in self.methylation_data.iterrows()\<close>, with the list
  \<^verbatim>\<open>significant_cpg_sites\<close> as accumulator; an exception ends the loop and the call.
\<close>

fun significant_loop ::
  "scipy_api \<Rightarrow> (real list \<Rightarrow> real list \<Rightarrow> cell) \<Rightarrow> methylation \<Rightarrow> string list \<Rightarrow> string list
     \<Rightarrow> real \<Rightarrow> probe_row list \<Rightarrow> string option list \<Rightarrow> py_error + string option list" where
  "significant_loop api pvalue m g1 g2 p_value_threshold [] significant_cpg_sites =
     Inr significant_cpg_sites"
| "significant_loop api pvalue m g1 g2 p_value_threshold (row # rows) significant_cpg_sites =
     (case row_pvalue api pvalue m g1 g2 row of
        Inl e \<Rightarrow> Inl e
      | Inr p_value \<Rightarrow>
          significant_loop api pvalue m g1 g2 p_value_threshold rows
            (if nan_less p_value p_value_threshold
             then significant_cpg_sites @ [cpgSite row]
             else significant_cpg_sites))"

definition identify_significant_cpg_sites ::
  "scipy_api \<Rightarrow> (real list \<Rightarrow> real list \<Rightarrow> cell) \<Rightarrow> analyzer \<Rightarrow> string \<Rightarrow> string \<Rightarrow> string
     \<Rightarrow> real \<Rightarrow> py_error + string option list" where
  "identify_significant_cpg_sites api pvalue st group_field group1 group2 p_value_threshold =
     (case group_sample_ids (metadata st) group_field group1 of
        Inl e \<Rightarrow> Inl e
      | Inr group1_samples \<Rightarrow>
          (case group_sample_ids (metadata st) group_field group2 of
             Inl e \<Rightarrow> Inl e
           | Inr group2_samples \<Rightarrow>
               significant_loop api pvalue (methylation_data st)
                 group1_samples group2_samples p_value_threshold
                 (probe_rows (methylation_data st)) []))"

text \<open>
  The reading of the specification of a group: the samples whose value in the group
  field is the category value. A sample has a value in a categorical column, and its
  identifier in the column \<^verbatim>\<open>SampleID\<close>; a numeric age is no category, and a field that is
  no column gives no value.
\<close>

definition sample_field :: "metadata_table \<Rightarrow> string \<Rightarrow> sample_meta \<Rightarrow> string option" where
  "sample_field md group_field s =
     (if group_field = ''SampleID'' then Some (SampleID s)
      else if group_field = ''Age'' then None
      else case index_of group_field (category_fields md) of
             None \<Rightarrow> None
           | Some i \<Rightarrow> category_at s i)"

definition matching_samples :: "metadata_table \<Rightarrow> string \<Rightarrow> string \<Rightarrow> sample_meta list" where
  "matching_samples md group_field g =
     filter (\<lambda>s. sample_field md group_field s = Some g) (sample_rows md)"

section \<open>\<^verbatim>\<open>plot_cpg_against_age\<close> and \<^verbatim>\<open>visualize_correlation_with_age\<close>\<close>

text \<open>
  Both methods start with the same five lines:
  \<^verbatim>\<open>cpg_data = self.methylation_data.set_index('cpgSite').loc[cpg_site]\<close> looks the probe
  up (\<^verbatim>\<open>KeyError\<close> when no row carries the identifier);
  \<^verbatim>\<open>pd.merge(cpg_data.reset_index(), self.metadata, left_on='index', right_on='SampleID')\<close>
  joins the probe's levels, one row per sample column, with the metadata rows of the same
  \<^verbatim>\<open>SampleID\<close> (an inner join in the order of the sample columns); the \<^verbatim>\<open>Age\<close> and the
  level columns of the join are the data of the chart.

  When several rows carry the identifier, \<^verbatim>\<open>loc\<close> returns a frame, \<^verbatim>\<open>reset_index()\<close>
  then has no column \<^verbatim>\<open>index\<close> and the merge raises \<^verbatim>\<open>KeyError\<close>. A probe called like a
  column of the metadata gets a suffix in the join, and reading its column raises
  \<^verbatim>\<open>KeyError\<close>; a probe called \<^verbatim>\<open>index\<close> makes the join or the fit raise \<^verbatim>\<open>ValueError\<close>.
\<close>

definition metadata_columns :: "metadata_table \<Rightarrow> string list" where
  "metadata_columns md = ''SampleID'' # ''Age'' # category_fields md"

definition merge_on_sample :: "methylation \<Rightarrow> probe_row \<Rightarrow> metadata_table \<Rightarrow> (cell \<times> cell) list" where
  "merge_on_sample m cpg_data md =
     concat (map (\<lambda>(l, c). map (\<lambda>s. (Age s, c)) (filter (\<lambda>s. SampleID s = l) (sample_rows md)))
               (zip (sample_columns m) (levels cpg_data)))"

definition probe_against_age :: "analyzer \<Rightarrow> string \<Rightarrow> py_error + (cell \<times> cell) list" where
  "probe_against_age st cpg_site =
     (case filter (\<lambda>r. cpgSite r = Some cpg_site) (probe_rows (methylation_data st)) of
        [] \<Rightarrow> Inl KeyError
      | [cpg_data] \<Rightarrow>
          if cpg_site = ''index'' then Inl ValueError
          else if cpg_site \<in> set (metadata_columns (metadata st)) then Inl KeyError
          else Inr (merge_on_sample (methylation_data st) cpg_data (metadata st))
      | _ \<Rightarrow> Inl KeyError)"

text \<open>The points of a join without \<^verbatim>\<open>NaN\<close>; \<open>None\<close> when an age or a level is missing.\<close>

fun finite_points :: "(cell \<times> cell) list \<Rightarrow> (real \<times> real) list option" where
  "finite_points [] = Some []"
| "finite_points ((Some a, Some y) # ps) = map_option (Cons (a, y)) (finite_points ps)"
| "finite_points (p # ps) = None"

text \<open>
  A chart put on screen by \<^verbatim>\<open>plt.show()\<close>: its kind, the probe of its title and the
  points of its scatter. The fitted curves are those of scikit-learn on these points.
\<close>

datatype chart =
    LinearFit string "(real \<times> real) list"
  | PolynomialFit string "(real \<times> real) list"
  | Correlation string "(cell \<times> cell) list" cell

text \<open>
  \<^verbatim>\<open>LinearRegression().fit\<close> raises \<^verbatim>\<open>ValueError\<close> on an empty input and on \<^verbatim>\<open>NaN\<close>; it
  is called before the first chart. The second fit is on the same data. The method reads
  \<^verbatim>\<open>self\<close> and assigns nothing to it.
\<close>

definition plot_cpg_against_age ::
  "analyzer \<Rightarrow> chart list \<Rightarrow> string \<Rightarrow> (py_error + unit) \<times> analyzer \<times> chart list" where
  "plot_cpg_against_age st shown cpg_site =
     (case probe_against_age st cpg_site of
        Inl e \<Rightarrow> (Inl e, st, shown)
      | Inr merged_data \<Rightarrow>
          (if merged_data = [] then (Inl ValueError, st, shown)
           else case finite_points merged_data of
                  None \<Rightarrow> (Inl ValueError, st, shown)
                | Some pts \<Rightarrow>
                    (Inr (), st, shown @ [LinearFit cpg_site pts, PolynomialFit cpg_site pts])))"

text \<open>
  \<^verbatim>\<open>scipy.stats.pearsonr\<close>: \<^verbatim>\<open>ValueError\<close> on fewer than two points, \<^verbatim>\<open>NaN\<close> when a value is
  \<^verbatim>\<open>NaN\<close> or when one of the two inputs is constant. (This is the behaviour of current
  scipy; releases that compute the norms with \<^verbatim>\<open>scipy.linalg.norm\<close> raise \<^verbatim>\<open>ValueError\<close>
  on a \<^verbatim>\<open>NaN\<close> instead. Nothing proved below depends on this case.)
\<close>

definition pearsonr :: "(cell \<times> cell) list \<Rightarrow> py_error + cell" where
  "pearsonr merged_data =
     (if length merged_data < 2 then Inl ValueError
      else case finite_points merged_data of
             None \<Rightarrow> Inr None
           | Some pts \<Rightarrow>
               (let xs = map fst pts; ys = map snd pts;
                    xm = map (\<lambda>x. x - mean xs) xs; ym = map (\<lambda>y. y - mean ys) ys
                in if list_all (\<lambda>x. x = hd xs) xs \<or> list_all (\<lambda>y. y = hd ys) ys then Inr None
                   else Inr (Some (sum_list (map2 (*) xm ym) /
                                   (sqrt (sum_list (map (\<lambda>x. x\<^sup>2) xm)) *
                                    sqrt (sum_list (map (\<lambda>y. y\<^sup>2) ym)))))))"

text \<open>
  \<^verbatim>\<open>for cpg_site in cpg_sites\<close>, with the dictionary \<^verbatim>\<open>correlations\<close> and the charts shown
  so far; an exception ends the loop, the charts already shown stay shown.
\<close>

fun correlation_loop ::
  "analyzer \<Rightarrow> string list \<Rightarrow> (string \<rightharpoonup> cell) \<Rightarrow> chart list
     \<Rightarrow> (py_error + (string \<rightharpoonup> cell)) \<times> chart list" where
  "correlation_loop st [] correlations shown = (Inr correlations, shown)"
| "correlation_loop st (cpg_site # cpg_sites) correlations shown =
     (case probe_against_age st cpg_site of
        Inl e \<Rightarrow> (Inl e, shown)
      | Inr merged_data \<Rightarrow>
          (case pearsonr merged_data of
             Inl e \<Rightarrow> (Inl e, shown)
           | Inr corr \<Rightarrow>
               correlation_loop st cpg_sites (correlations(cpg_site \<mapsto> corr))
                 (shown @ [Correlation cpg_site merged_data corr])))"

definition visualize_correlation_with_age ::
  "analyzer \<Rightarrow> chart list \<Rightarrow> string list
     \<Rightarrow> (py_error + (string \<rightharpoonup> cell)) \<times> analyzer \<times> chart list" where
  "visualize_correlation_with_age st shown cpg_sites =
     (case correlation_loop st cpg_sites Map.empty shown of
        (result, shown') \<Rightarrow> (result, st, shown'))"

section \<open>The methods as programs on the objects of the interpreter\<close>

text \<open>
  The functions above give what each method computes. Whether a method changes the tables
  of the analyzer is a question about objects: a pandas call either returns a new frame
  and leaves the one it was called on, or, with \<^verbatim>\<open>inplace=True\<close>, changes that frame.
  Here the frames live in a store, \<^verbatim>\<open>self\<close> holds the addresses of its two tables, and
  each method is the sequence of its pandas calls, each with the effect it has on the
  store. An exception ends the program and leaves the store as it is at that point.
\<close>

datatype pyobj =
    Matrix methylation
  | Table metadata_table
  | Levels "cell list list"
  | Joined "(cell \<times> cell) list"

record pystate =
  objects :: "pyobj list"
  screen :: "chart list"

record self_refs =
  methylation_ref :: nat
  metadata_ref :: nat

type_synonym 'a prog = "pystate \<Rightarrow> (py_error + 'a) \<times> pystate"

definition py_return :: "'a \<Rightarrow> 'a prog" where
  "py_return x s = (Inr x, s)"

definition py_raise :: "py_error \<Rightarrow> 'a prog" where
  "py_raise e s = (Inl e, s)"

definition py_bind :: "'a prog \<Rightarrow> ('a \<Rightarrow> 'b prog) \<Rightarrow> 'b prog" where
  "py_bind p f s = (case p s of (Inl e, s') \<Rightarrow> (Inl e, s') | (Inr x, s') \<Rightarrow> f x s')"

text \<open>A computation on values, which returns or raises and touches no object.\<close>

definition py_lift :: "py_error + 'a \<Rightarrow> 'a prog" where
  "py_lift r s = (r, s)"

text \<open>Reading an attribute of \<^verbatim>\<open>self\<close>: the frame at the address.\<close>

definition get_matrix :: "nat \<Rightarrow> methylation prog" where
  "get_matrix a s =
     (if a < length (objects s)
      then (case objects s ! a of Matrix m \<Rightarrow> (Inr m, s) | _ \<Rightarrow> (Inl AttributeError, s))
      else (Inl AttributeError, s))"

definition get_table :: "nat \<Rightarrow> metadata_table prog" where
  "get_table a s =
     (if a < length (objects s)
      then (case objects s ! a of Table md \<Rightarrow> (Inr md, s) | _ \<Rightarrow> (Inl AttributeError, s))
      else (Inl AttributeError, s))"

text \<open>A call that returns a new frame: the frame gets the next free address.\<close>

definition new_object :: "pyobj \<Rightarrow> nat prog" where
  "new_object ob s = (Inr (length (objects s)), s\<lparr>objects := objects s @ [ob]\<rparr>)"

text \<open>A call with \<^verbatim>\<open>inplace=True\<close>: the frame at the address is replaced.\<close>

definition replace_object :: "nat \<Rightarrow> pyobj \<Rightarrow> unit prog" where
  "replace_object a ob s = (Inr (), s\<lparr>objects := (objects s)[a := ob]\<rparr>)"

text \<open>\<^verbatim>\<open>plt.show()\<close>\<close>

definition show_chart :: "chart \<Rightarrow> unit prog" where
  "show_chart c s = (Inr (), s\<lparr>screen := screen s @ [c]\<rparr>)"

text \<open>
  \<^verbatim>\<open>preprocess_data\<close>: \<^verbatim>\<open>self.methylation_data.dropna(how='all', inplace=True)\<close>, then
  \<^verbatim>\<open>self.methylation_data.mean()\<close>, which may raise, then
  \<^verbatim>\<open>self.methylation_data.fillna(..., inplace=True)\<close>.
\<close>

definition preprocess_data_prog :: "pandas_api \<Rightarrow> self_refs \<Rightarrow> unit prog" where
  "preprocess_data_prog api self =
     py_bind (get_matrix (methylation_ref self)) (\<lambda>df.
     py_bind (replace_object (methylation_ref self) (Matrix (dropna_all df))) (\<lambda>u.
     py_bind (get_matrix (methylation_ref self)) (\<lambda>dropped.
     if mean_raises api dropped then py_raise TypeError
     else replace_object (methylation_ref self)
            (Matrix (fillna (column_means dropped) dropped)))))"

text \<open>
  \<^verbatim>\<open>identify_stable_cpg_sites\<close>: \<^verbatim>\<open>self.methylation_data.iloc[:, 1:]\<close> is a new frame of the
  sample columns, \<^verbatim>\<open>.var(axis=1)\<close> a series of values, and
  \<^verbatim>\<open>self.methylation_data[variances < threshold]\<close> a new frame of the selected rows.
\<close>

definition identify_stable_cpg_sites_prog :: "self_refs \<Rightarrow> real \<Rightarrow> string option list prog" where
  "identify_stable_cpg_sites_prog self threshold =
     py_bind (get_matrix (methylation_ref self)) (\<lambda>df.
     py_bind (new_object (Levels (map levels (probe_rows df)))) (\<lambda>sub.
     py_bind (py_return (map nanvar (map levels (probe_rows df)))) (\<lambda>variances.
     py_bind (get_matrix (methylation_ref self)) (\<lambda>df2.
     py_bind (py_return (df2\<lparr>probe_rows :=
                boolean_mask (probe_rows df2) (map (\<lambda>v. nan_less v threshold) variances)\<rparr>))
       (\<lambda>stable_cpg_sites.
     py_bind (new_object (Matrix stable_cpg_sites)) (\<lambda>sel.
     py_return (map cpgSite (probe_rows stable_cpg_sites))))))))"

text \<open>
  \<^verbatim>\<open>identify_significant_cpg_sites\<close>: \<^verbatim>\<open>self.metadata[self.metadata[group_field] == group]\<close>
  is a new frame of the selected samples, once per group. \<^verbatim>\<open>iterrows()\<close> hands out the
  rows as new series, values of the loop, which reads them and nothing else.
\<close>

definition select_group :: "nat \<Rightarrow> string \<Rightarrow> string \<Rightarrow> string list prog" where
  "select_group a group_field g =
     py_bind (get_table a) (\<lambda>md.
     py_bind (py_lift (field_equals md group_field g)) (\<lambda>flags.
     py_bind (py_return (map fst (filter snd (zip (sample_rows md) flags)))) (\<lambda>selected.
     py_bind (new_object (Table (md\<lparr>sample_rows := selected\<rparr>))) (\<lambda>sel.
     py_return (map SampleID selected)))))"

definition identify_significant_cpg_sites_prog ::
  "scipy_api \<Rightarrow> (real list \<Rightarrow> real list \<Rightarrow> cell) \<Rightarrow> self_refs \<Rightarrow> string \<Rightarrow> string \<Rightarrow> string
     \<Rightarrow> real \<Rightarrow> string option list prog" where
  "identify_significant_cpg_sites_prog api pvalue self group_field group1 group2 p_value_threshold =
     py_bind (select_group (metadata_ref self) group_field group1) (\<lambda>group1_samples.
     py_bind (select_group (metadata_ref self) group_field group2) (\<lambda>group2_samples.
     py_bind (get_matrix (methylation_ref self)) (\<lambda>df.
     py_lift (significant_loop api pvalue df group1_samples group2_samples p_value_threshold
                (probe_rows df) []))))"

text \<open>
  The first lines of the two plotting methods:
  \<^verbatim>\<open>self.methylation_data.set_index('cpgSite')\<close> is a new frame, \<^verbatim>\<open>.loc[cpg_site]\<close> may
  raise, and \<^verbatim>\<open>pd.merge(cpg_data.reset_index(), self.metadata, ...)\<close> is a new frame.
\<close>

definition merge_probe :: "self_refs \<Rightarrow> string \<Rightarrow> (cell \<times> cell) list prog" where
  "merge_probe self cpg_site =
     py_bind (get_matrix (methylation_ref self)) (\<lambda>df.
     py_bind (new_object (Matrix df)) (\<lambda>indexed.
     py_bind (get_table (metadata_ref self)) (\<lambda>md.
     py_bind (py_lift (probe_against_age \<lparr>methylation_data = df, metadata = md\<rparr> cpg_site))
       (\<lambda>merged_data.
     py_bind (new_object (Joined merged_data)) (\<lambda>merged.
     py_return merged_data)))))"

definition plot_cpg_against_age_prog :: "self_refs \<Rightarrow> string \<Rightarrow> unit prog" where
  "plot_cpg_against_age_prog self cpg_site =
     py_bind (merge_probe self cpg_site) (\<lambda>merged_data.
     if merged_data = [] then py_raise ValueError
     else case finite_points merged_data of
            None \<Rightarrow> py_raise ValueError
          | Some pts \<Rightarrow>
              py_bind (show_chart (LinearFit cpg_site pts)) (\<lambda>u.
              show_chart (PolynomialFit cpg_site pts)))"

fun correlation_prog ::
  "self_refs \<Rightarrow> string list \<Rightarrow> (string \<rightharpoonup> cell) \<Rightarrow> (string \<rightharpoonup> cell) prog" where
  "correlation_prog self [] correlations = py_return correlations"
| "correlation_prog self (cpg_site # cpg_sites) correlations =
     py_bind (merge_probe self cpg_site) (\<lambda>merged_data.
     py_bind (py_lift (pearsonr merged_data)) (\<lambda>corr.
     py_bind (show_chart (Correlation cpg_site merged_data corr)) (\<lambda>u.
     correlation_prog self cpg_sites (correlations(cpg_site \<mapsto> corr)))))"

definition visualize_correlation_with_age_prog ::
  "self_refs \<Rightarrow> string list \<Rightarrow> (string \<rightharpoonup> cell) prog" where
  "visualize_correlation_with_age_prog self cpg_sites =
     correlation_prog self cpg_sites Map.empty"

text \<open>
  A program keeps the objects when, from every store, each object that was there before
  the run is the same after it, whether the run returns or raises.
\<close>

definition keeps_objects :: "'a prog \<Rightarrow> bool" where
  "keeps_objects p \<longleftrightarrow> (\<forall>s. take (length (objects s)) (objects (snd (p s))) = objects s)"

text \<open>The analyzer at the addresses of \<^verbatim>\<open>self\<close>, when both are tables of their kind.\<close>

definition analyzer_at :: "self_refs \<Rightarrow> pystate \<Rightarrow> analyzer option" where
  "analyzer_at self s =
     (if methylation_ref self < length (objects s) \<and> metadata_ref self < length (objects s)
      then (case (objects s ! methylation_ref self, objects s ! metadata_ref self) of
              (Matrix m, Table md) \<Rightarrow> Some \<lparr>methylation_data = m, metadata = md\<rparr>
            | _ \<Rightarrow> None)
      else None)"

section \<open>Sample analyzers\<close>

text \<open>A small analyzer used to evaluate the functions: three probes over two samples.
  \<^verbatim>\<open>cg1\<close> varies (0.1, 0.9), \<^verbatim>\<open>cg2\<close> is constant, \<^verbatim>\<open>cg3\<close> has one available value.\<close>

definition demo_stable :: analyzer where
  "demo_stable =
     \<lparr>methylation_data =
        \<lparr>sample_columns = [''s1'', ''s2''],
         probe_rows =
           [\<lparr>cpgSite = Some ''cg1'', levels = [Some (1/10), Some (9/10)]\<rparr>,
            \<lparr>cpgSite = Some ''cg2'', levels = [Some (1/2), Some (1/2)]\<rparr>,
            \<lparr>cpgSite = Some ''cg3'', levels = [Some (1/2), None]\<rparr>]\<rparr>,
      metadata = \<lparr>category_fields = [], sample_rows = []\<rparr>\<rparr>"


text \<open>
  An analyzer with missing cells: \<^verbatim>\<open>cg1\<close> has one available value (0.2), \<^verbatim>\<open>cg2\<close> is
  complete (0.4, 0.8), \<^verbatim>\<open>cg3\<close> has an identifier and no measurement at all.
\<close>

definition demo_missing :: analyzer where
  "demo_missing =
     \<lparr>methylation_data =
        \<lparr>sample_columns = [''s1'', ''s2''],
         probe_rows =
           [\<lparr>cpgSite = Some ''cg1'', levels = [Some (1/5), None]\<rparr>,
            \<lparr>cpgSite = Some ''cg2'', levels = [Some (2/5), Some (4/5)]\<rparr>,
            \<lparr>cpgSite = Some ''cg3'', levels = [None, None]\<rparr>]\<rparr>,
      metadata = \<lparr>category_fields = [], sample_rows = []\<rparr>\<rparr>"


text \<open>
  An analyzer with two groups of two samples under the field \<^verbatim>\<open>Disease\<close>. \<^verbatim>\<open>cgA\<close> is 0.1
  in one group and 0.9 in the other, \<^verbatim>\<open>cgB\<close> is 0.5 everywhere, \<^verbatim>\<open>cgC\<close> has a single
  available value in the first group, \<^verbatim>\<open>cgD\<close> varies within both groups.
\<close>

definition demo_groups :: analyzer where
  "demo_groups =
     \<lparr>methylation_data =
        \<lparr>sample_columns = [''a1'', ''a2'', ''b1'', ''b2''],
         probe_rows =
           [\<lparr>cpgSite = Some ''cgA'', levels = [Some (1/10), Some (1/10), Some (9/10), Some (9/10)]\<rparr>,
            \<lparr>cpgSite = Some ''cgB'', levels = [Some (1/2), Some (1/2), Some (1/2), Some (1/2)]\<rparr>,
            \<lparr>cpgSite = Some ''cgC'', levels = [Some (1/10), None, Some (9/10), Some (9/10)]\<rparr>,
            \<lparr>cpgSite = Some ''cgD'', levels = [Some (1/10), Some (1/5), Some (3/10), Some (1/2)]\<rparr>]\<rparr>,
      metadata =
        \<lparr>category_fields = [''Disease''],
         sample_rows =
           [\<lparr>SampleID = ''a1'', Age = Some 30, categories = [Some ''Control'']\<rparr>,
            \<lparr>SampleID = ''a2'', Age = Some 40, categories = [Some ''Control'']\<rparr>,
            \<lparr>SampleID = ''b1'', Age = Some 50, categories = [Some ''COVID'']\<rparr>,
            \<lparr>SampleID = ''b2'', Age = Some 60, categories = [Some ''COVID'']\<rparr>]\<rparr>\<rparr>"

text \<open>A stand-in for the p-value of scipy on \<^verbatim>\<open>float64\<close> samples in evaluations: 1 on
  every pair of samples.\<close>

definition flat_pvalue :: "real list \<Rightarrow> real list \<Rightarrow> cell" where
  "flat_pvalue a b = Some 1"

text \<open>
  The same samples with a single probe, \<^verbatim>\<open>cgC\<close>, which has exactly one available value
  in the group \<^verbatim>\<open>Control\<close> and two in the group \<^verbatim>\<open>COVID\<close>.
\<close>

definition demo_one_value :: analyzer where
  "demo_one_value =
     \<lparr>methylation_data =
        \<lparr>sample_columns = [''a1'', ''a2'', ''b1'', ''b2''],
         probe_rows =
           [\<lparr>cpgSite = Some ''cgC'', levels = [Some (1/10), None, Some (9/10), Some (9/10)]\<rparr>]\<rparr>,
      metadata =
        \<lparr>category_fields = [''Disease''],
         sample_rows =
           [\<lparr>SampleID = ''a1'', Age = Some 30, categories = [Some ''Control'']\<rparr>,
            \<lparr>SampleID = ''a2'', Age = Some 40, categories = [Some ''Control'']\<rparr>,
            \<lparr>SampleID = ''b1'', Age = Some 50, categories = [Some ''COVID'']\<rparr>,
            \<lparr>SampleID = ''b2'', Age = Some 60, categories = [Some ''COVID'']\<rparr>]\<rparr>\<rparr>"

text \<open>An analyzer whose matrix has a blank line: a row without identifier and without
  levels, which \<^verbatim>\<open>dropna(how='all')\<close> removes.\<close>

definition demo_blank :: analyzer where
  "demo_blank =
     \<lparr>methylation_data =
        \<lparr>sample_columns = [''s1'', ''s2''],
         probe_rows =
           [\<lparr>cpgSite = Some ''cg1'', levels = [Some (1/5), Some (2/5)]\<rparr>,
            \<lparr>cpgSite = None, levels = [None, None]\<rparr>]\<rparr>,
      metadata = \<lparr>category_fields = [], sample_rows = []\<rparr>\<rparr>"


text \<open>The store right after the construction of an analyzer on the tables of
  \<open>demo_blank\<close>: the matrix at address 0 and the metadata at address 1.\<close>

definition demo_store :: pystate where
  "demo_store =
     \<lparr>objects = [Matrix (methylation_data demo_blank), Table (metadata demo_blank)],
      screen = []\<rparr>"

definition demo_self :: self_refs where
  "demo_self = \<lparr>methylation_ref = 0, metadata_ref = 1\<rparr>"

section \<open>Properties of \<^verbatim>\<open>identify_stable_cpg_sites\<close>\<close>

lemma boolean_mask_filter:
  "boolean_mask rows (map P rows) = filter P rows"
  unfolding boolean_mask_def by (induction rows) auto

lemma nan_less_stable_row: "nan_less (nanvar (levels r)) t = stable_row t r"
  unfolding stable_row_def by (cases "nanvar (levels r)") auto

lemma identify_stable_filter:
  "identify_stable_cpg_sites st t =
     map cpgSite (filter (stable_row t) (probe_rows (methylation_data st)))"
proof -
  have "map (\<lambda>v. nan_less v t) (row_variances (methylation_data st)) =
        map (stable_row t) (probe_rows (methylation_data st))"
    unfolding row_variances_def by (simp add: nan_less_stable_row)
  then show ?thesis
    unfolding identify_stable_cpg_sites_def by (simp add: boolean_mask_filter)
qed

lemma sample_var_nonneg: "sample_var vs = Some v \<Longrightarrow> 0 \<le> v"
  unfolding sample_var_def
  by (auto split: if_splits intro!: divide_nonneg_nonneg sum_list_nonneg)

lemma stable_row_mono: "t1 \<le> t2 \<Longrightarrow> stable_row t1 r \<Longrightarrow> stable_row t2 r"
  unfolding stable_row_def by (auto split: option.splits)

lemma stable_row_nonpos: "t \<le> 0 \<Longrightarrow> \<not> stable_row t r"
  unfolding stable_row_def nanvar_def
  by (auto split: option.splits dest: sample_var_nonneg)

text \<open>
  Claim C10. \<^verbatim>\<open>identify_stable_cpg_sites\<close> is monotone in its threshold: for
  \<open>t1 \<le> t2\<close> the result for \<open>t1\<close> is a subsequence of the result for \<open>t2\<close> (each of its
  identifiers appears there, in the same relative order), and a threshold \<open>t \<le> 0\<close> gives
  the empty list.
\<close>

theorem identify_stable_cpg_sites_monotone:
  "(t1 \<le> t2 \<longrightarrow>
      subseq (identify_stable_cpg_sites st t1) (identify_stable_cpg_sites st t2)) \<and>
   (t \<le> 0 \<longrightarrow> identify_stable_cpg_sites st t = [])"
proof (intro conjI impI)
  assume le: "t1 \<le> t2"
  let ?rows = "probe_rows (methylation_data st)"
  have "filter (stable_row t1) ?rows = filter (stable_row t1) (filter (stable_row t2) ?rows)"
    using le by (auto intro!: filter_cong dest: stable_row_mono)
  then have "subseq (filter (stable_row t1) ?rows) (filter (stable_row t2) ?rows)"
    by (metis subseq_filter_left)
  then show "subseq (identify_stable_cpg_sites st t1) (identify_stable_cpg_sites st t2)"
    unfolding identify_stable_filter by (rule subseq_map)
next
  assume "t \<le> 0"
  then show "identify_stable_cpg_sites st t = []"
    unfolding identify_stable_filter by (simp add: stable_row_nonpos)
qed

theorem identify_stable_cpg_sites_monotone_witness:
  "subseq (identify_stable_cpg_sites demo_stable (1/100)) (identify_stable_cpg_sites demo_stable 1) \<and>
   identify_stable_cpg_sites demo_stable 0 = []"
  using identify_stable_cpg_sites_monotone [of "1/100" 1 demo_stable 0] by simp

section \<open>Properties of the method on the computed variance\<close>


lemma identify_stable_with_sample_var:
  "identify_stable_cpg_sites_with sample_var st t = identify_stable_cpg_sites st t"
proof -
  have "nanvar_with sample_var cs = nanvar cs" for cs
    unfolding nanvar_with_def nanvar_def sample_var_def by (simp add: Let_def)
  then show ?thesis
    unfolding identify_stable_cpg_sites_with_def identify_stable_cpg_sites_def row_variances_def
    by simp
qed


text \<open>The exponent brackets its argument, and rounding moves a number by at most half a
  unit.\<close>

lemma bitlen_bracket:
  fixes k :: int
  assumes "1 \<le> k"
  shows "(2::real) powi (bitlen k - 1) \<le> of_int k" and "of_int k < (2::real) powi (bitlen k)"
proof -
  from assms have pos: "0 < k" by simp
  then have b: "2 ^ nat (bitlen k - 1) \<le> k" "k < 2 ^ nat (bitlen k)"
    using bitlen_bounds [OF pos] by simp_all
  have ge: "1 \<le> bitlen k"
    using pos by (simp add: bitlen_def floorlog_def)
  have "(2::real) powi (bitlen k - 1) = 2 ^ nat (bitlen k - 1)"
    using ge by (simp add: power_int_def)
  also have "\<dots> = of_int (2 ^ nat (bitlen k - 1))" by simp
  also have "\<dots> \<le> of_int k" using b(1) by (simp only: of_int_le_iff)
  finally show "(2::real) powi (bitlen k - 1) \<le> of_int k" .
  have "of_int k < (of_int (2 ^ nat (bitlen k)) :: real)"
    using b(2) by (simp only: of_int_less_iff)
  also have "\<dots> = 2 powi (bitlen k)"
    using ge by (simp add: power_int_def)
  finally show "of_int k < (2::real) powi (bitlen k)" .
qed

lemma ilog2_bracket:
  assumes "0 < x"
  shows "2 powi (ilog2 x) \<le> x \<and> x < 2 powi (ilog2 x + 1)"
proof (cases "1 \<le> x")
  case True
  then have k: "1 \<le> \<lfloor>x\<rfloor>" by simp
  have "(2::real) powi (bitlen \<lfloor>x\<rfloor> - 1) \<le> of_int \<lfloor>x\<rfloor>"
    by (rule bitlen_bracket(1) [OF k])
  also have "\<dots> \<le> x" by simp
  finally have lo: "2 powi (bitlen \<lfloor>x\<rfloor> - 1) \<le> x" .
  have "x < of_int (\<lfloor>x\<rfloor> + 1)" by linarith
  also have "\<dots> \<le> (2::real) powi (bitlen \<lfloor>x\<rfloor>)"
  proof -
    have "of_int \<lfloor>x\<rfloor> < (2::real) powi (bitlen \<lfloor>x\<rfloor>)"
      by (rule bitlen_bracket(2) [OF k])
    moreover have "(2::real) powi (bitlen \<lfloor>x\<rfloor>) = of_int (2 ^ nat (bitlen \<lfloor>x\<rfloor>))"
      by (simp add: power_int_def bitlen_nonneg)
    ultimately have "\<lfloor>x\<rfloor> < 2 ^ nat (bitlen \<lfloor>x\<rfloor>)"
      by (simp only: of_int_less_iff)
    then have "\<lfloor>x\<rfloor> + 1 \<le> 2 ^ nat (bitlen \<lfloor>x\<rfloor>)" by simp
    then have "(of_int (\<lfloor>x\<rfloor> + 1) :: real) \<le> of_int (2 ^ nat (bitlen \<lfloor>x\<rfloor>))"
      by (simp only: of_int_le_iff)
    then show ?thesis
      by (simp add: power_int_def bitlen_nonneg)
  qed
  finally have hi: "x < 2 powi (bitlen \<lfloor>x\<rfloor>)" .
  from lo hi True show ?thesis
    unfolding ilog2_def by simp
next
  case False
  let ?y = "1 / x"
  let ?k = "\<lceil>?y\<rceil> - 1"
  from False assms have y1: "1 < ?y" by simp
  then have "2 \<le> \<lceil>?y\<rceil>" by linarith
  then have k: "1 \<le> ?k" by simp
  have ky: "of_int ?k < ?y" by linarith
  have yk: "?y \<le> of_int ?k + 1" by linarith
  have ypos: "0 < ?y" using assms by simp
  have "(2::real) powi (bitlen ?k - 1) \<le> of_int ?k"
    by (rule bitlen_bracket(1) [OF k])
  with ky have "2 powi (bitlen ?k - 1) < ?y" by linarith
  then have "x < 1 / 2 powi (bitlen ?k - 1)"
    using assms by (simp add: field_simps)
  then have hi: "x < 2 powi (- bitlen ?k + 1)"
    by (simp add: power_int_minus field_simps power_int_diff power_int_add)
  have "of_int ?k < (2::real) powi (bitlen ?k)"
    by (rule bitlen_bracket(2) [OF k])
  moreover have "(2::real) powi (bitlen ?k) = of_int (2 ^ nat (bitlen ?k))"
    by (simp add: power_int_def bitlen_nonneg)
  ultimately have "?k < 2 ^ nat (bitlen ?k)"
    by (simp only: of_int_less_iff)
  then have "?k + 1 \<le> 2 ^ nat (bitlen ?k)" by simp
  then have "(of_int (?k + 1) :: real) \<le> of_int (2 ^ nat (bitlen ?k))"
    by (simp only: of_int_le_iff)
  then have "of_int ?k + 1 \<le> (2::real) powi (bitlen ?k)"
    by (simp add: power_int_def bitlen_nonneg)
  with yk have "?y \<le> 2 powi (bitlen ?k)" by linarith
  then have lo: "2 powi (- bitlen ?k) \<le> x"
    using assms by (simp add: power_int_minus field_simps)
  from lo hi False show ?thesis
    unfolding ilog2_def by simp
qed

lemma round_half_even_near: "\<bar>of_int (round_half_even y) - y\<bar> \<le> 1/2"
  unfolding round_half_even_def Let_def by (auto; linarith)

lemma f64_tenth: "f64 (1/10) = Some tenth"
  unfolding f64_def ilog2_def round_half_even_def tenth_def
  by (simp add: bitlen_def compute_floorlog Let_def power_int_minus)

lemma f64_threshold_1e_40: "f64 (1 / 10 ^ 40) = Some threshold_1e_40"
  unfolding f64_def ilog2_def round_half_even_def threshold_1e_40_def
  by (simp add: bitlen_def compute_floorlog Let_def power_int_minus)







section \<open>Properties of \<^verbatim>\<open>preprocess_data\<close>\<close>

lemma dropna_all_idem: "dropna_all (dropna_all m) = dropna_all m"
  unfolding dropna_all_def by simp

lemma fillna_cell_None_iff: "fillna_cell c v = None \<longleftrightarrow> c = None \<and> v = None"
  unfolding fillna_cell_def by (cases c) auto

lemma length_levels_fillna_row [simp]: "length (levels (fillna_row s r)) = length (levels r)"
  unfolding fillna_row_def by simp

lemma cpgSite_fillna_row [simp]: "cpgSite (fillna_row s r) = cpgSite r"
  unfolding fillna_row_def by simp

lemma levels_fillna_row_nth:
  "j < length (levels r) \<Longrightarrow>
     levels (fillna_row s r) ! j = fillna_cell (levels r ! j) (series_at s j)"
  unfolding fillna_row_def by simp

lemma cell_at_fillna_row:
  "cell_at (fillna_row s r) j = (if j < length (levels r) then fillna_cell (levels r ! j) (series_at s j) else None)"
  unfolding cell_at_def by (simp add: levels_fillna_row_nth)

lemma row_all_missing_fillna_row:
  assumes "row_all_missing (fillna_row s r)"
  shows "row_all_missing r"
proof -
  have "levels r ! j = None" if "j < length (levels r)" for j
  proof -
    have "levels (fillna_row s r) ! j = None"
      using assms that unfolding row_all_missing_def by (simp add: list_all_length)
    then show ?thesis
      using that by (simp add: levels_fillna_row_nth fillna_cell_None_iff)
  qed
  then show ?thesis
    using assms unfolding row_all_missing_def by (simp add: list_all_length)
qed

lemma dropna_all_fillna:
  "dropna_all (fillna s (dropna_all m)) = fillna s (dropna_all m)"
proof -
  have "filter (\<lambda>r. \<not> row_all_missing r) (map (fillna_row s) rs) = map (fillna_row s) rs"
    if "list_all (\<lambda>r. \<not> row_all_missing r) rs" for rs
    using that by (induction rs) (auto dest: row_all_missing_fillna_row)
  moreover have "list_all (\<lambda>r. \<not> row_all_missing r) (probe_rows (dropna_all m))"
    unfolding dropna_all_def by (simp add: list_all_iff)
  ultimately show ?thesis
    unfolding dropna_all_def fillna_def by simp
qed

lemma dropna_Nil_iff: "dropna cs = [] \<longleftrightarrow> list_all (\<lambda>c. c = None) cs"
  by (induction cs rule: dropna.induct) auto

lemma nanmean_None_iff: "nanmean cs = None \<longleftrightarrow> list_all (\<lambda>c. c = None) cs"
  unfolding nanmean_def by (simp add: Let_def dropna_Nil_iff)

lemma series_at_column_means_None_iff:
  "series_at (column_means m) j = None \<longleftrightarrow>
     (length (sample_columns m) \<le> j \<or> list_all (\<lambda>r. cell_at r j = None) (probe_rows m))"
  unfolding series_at_def column_means_def
  by (auto simp: nanmean_None_iff list_all_iff)

lemma sample_columns_fillna [simp]: "sample_columns (fillna s m) = sample_columns m"
  unfolding fillna_def by simp

lemma probe_rows_fillna [simp]: "probe_rows (fillna s m) = map (fillna_row s) (probe_rows m)"
  unfolding fillna_def by simp

text \<open>A column without a mean before the fill has none after it.\<close>

lemma column_mean_stays_None:
  assumes "series_at (column_means m) j = None"
  shows "series_at (column_means (fillna (column_means m) m)) j = None"
proof (cases "length (sample_columns m) \<le> j")
  case True
  then show ?thesis by (simp add: series_at_column_means_None_iff)
next
  case False
  with assms have all: "list_all (\<lambda>r. cell_at r j = None) (probe_rows m)"
    by (simp add: series_at_column_means_None_iff)
  have "cell_at (fillna_row (column_means m) r) j = None" if "r \<in> set (probe_rows m)" for r
  proof -
    from all that have "cell_at r j = None" by (simp add: list_all_iff)
    then show ?thesis
      using assms
      by (simp add: cell_at_def levels_fillna_row_nth fillna_cell_None_iff split: if_splits)
  qed
  then show ?thesis
    by (simp add: series_at_column_means_None_iff list_all_iff)
qed

lemma fillna_row_twice:
  assumes keep: "\<And>j. series_at s j = None \<Longrightarrow> series_at s' j = None"
  shows "fillna_row s' (fillna_row s r) = fillna_row s r"
proof -
  have "fillna_cell (fillna_cell c (series_at s j)) (series_at s' j) = fillna_cell c (series_at s j)"
    for c j
    using keep [of j] unfolding fillna_cell_def by (auto split: option.splits)
  then have "levels (fillna_row s' (fillna_row s r)) = levels (fillna_row s r)"
    by (intro nth_equalityI) (simp_all add: levels_fillna_row_nth)
  moreover have "fillna_row s' (fillna_row s r) = (fillna_row s r)\<lparr>levels := levels (fillna_row s' (fillna_row s r))\<rparr>"
    unfolding fillna_row_def by simp
  ultimately show ?thesis by simp
qed

lemma fillna_column_means_idem:
  "fillna (column_means (fillna (column_means m) m)) (fillna (column_means m) m) =
     fillna (column_means m) m"
proof -
  have "map (fillna_row (column_means (fillna (column_means m) m))) (map (fillna_row (column_means m)) rs) =
        map (fillna_row (column_means m)) rs" for rs
    by (induction rs) (simp_all add: fillna_row_twice column_mean_stays_None)
  then show ?thesis
    unfolding fillna_def by simp
qed

lemma mean_raises_fillna: "mean_raises api (fillna s m) = mean_raises api m"
  unfolding mean_raises_def by (simp add: list_ex_iff)

text \<open>
  Claim C8. \<^verbatim>\<open>preprocess_data\<close> is idempotent on the stored state: a second run right
  after a first one leaves the analyzer, and so the methylation matrix, as the first run
  left it. This holds under both generations of pandas (under the second, both runs end
  in the same \<^verbatim>\<open>TypeError\<close> when a label is present).
\<close>

theorem preprocess_data_idempotent:
  "snd (preprocess_data api (snd (preprocess_data api st))) = snd (preprocess_data api st)"
proof (cases "mean_raises api (dropna_all (methylation_data st))")
  case True
  then show ?thesis
    unfolding preprocess_data_def by (simp add: Let_def dropna_all_idem)
next
  case False
  let ?d = "dropna_all (methylation_data st)"
  have first: "snd (preprocess_data api st) = st\<lparr>methylation_data := fillna (column_means ?d) ?d\<rparr>"
    using False unfolding preprocess_data_def by (simp add: Let_def)
  have "snd (preprocess_data api (st\<lparr>methylation_data := fillna (column_means ?d) ?d\<rparr>)) =
        st\<lparr>methylation_data := fillna (column_means ?d) ?d\<rparr>"
    using False unfolding preprocess_data_def
    by (simp add: Let_def dropna_all_fillna fillna_column_means_idem mean_raises_fillna)
  then show ?thesis by (simp only: first)
qed

lemma dropna_all_demo_missing:
  "dropna_all (methylation_data demo_missing) = methylation_data demo_missing"
  unfolding dropna_all_def demo_missing_def row_all_missing_def by simp

lemma column_means_demo_missing:
  "column_means (methylation_data demo_missing) = [Some (3/10), Some (4/5)]"
  unfolding column_means_def demo_missing_def nanmean_def mean_def cell_at_def
  by (simp add: upt_rec)

text \<open>
  Claim C2, evaluated on the code. The missing cell of \<^verbatim>\<open>cg1\<close>, whose only available
  value is 0.2, is filled with 0.8, the mean of its column \<^verbatim>\<open>s2\<close> over the probes, not
  with the row's mean 0.2. Under pandas 2 the call raises \<^verbatim>\<open>TypeError\<close> and fills
  nothing.
\<close>

theorem preprocess_data_fills_with_column_mean:
  "map levels (probe_rows (methylation_data (snd (preprocess_data Pandas1 demo_missing)))) =
     [[Some (1/5), Some (4/5)], [Some (2/5), Some (4/5)], [Some (3/10), Some (4/5)]] \<and>
   preprocess_data Pandas2 demo_missing = (Some TypeError, demo_missing)"
proof -
  have "mean_raises Pandas2 (methylation_data demo_missing)"
    unfolding mean_raises_def demo_missing_def by simp
  then have two: "preprocess_data Pandas2 demo_missing = (Some TypeError, demo_missing)"
    unfolding preprocess_data_def by (simp add: Let_def dropna_all_demo_missing)
  have "\<not> mean_raises Pandas1 (methylation_data demo_missing)"
    unfolding mean_raises_def by simp
  then have "snd (preprocess_data Pandas1 demo_missing) =
      demo_missing\<lparr>methylation_data :=
        fillna [Some (3/10), Some (4/5)] (methylation_data demo_missing)\<rparr>"
    unfolding preprocess_data_def
    by (simp add: Let_def dropna_all_demo_missing column_means_demo_missing)
  then have "map levels (probe_rows (methylation_data (snd (preprocess_data Pandas1 demo_missing)))) =
     [[Some (1/5), Some (4/5)], [Some (2/5), Some (4/5)], [Some (3/10), Some (4/5)]]"
    unfolding demo_missing_def fillna_def fillna_row_def fillna_cell_def series_at_def
    by (simp add: upt_rec)
  with two show ?thesis by simp
qed

text \<open>
  Claim C3, evaluated on the code. Every non-identifier cell of \<^verbatim>\<open>cg3\<close> is missing, and
  the row is kept by \<^verbatim>\<open>preprocess_data\<close> under both generations of pandas:
  \<^verbatim>\<open>dropna(how='all')\<close> sees the identifier as an available cell.
\<close>

theorem preprocess_data_keeps_unmeasured_probe:
  "list_all (\<lambda>c. c = None) (levels (probe_rows (methylation_data demo_missing) ! 2)) \<and>
   map cpgSite (probe_rows (methylation_data (snd (preprocess_data api demo_missing)))) =
     [Some ''cg1'', Some ''cg2'', Some ''cg3'']"
proof -
  have "map cpgSite (probe_rows (methylation_data (snd (preprocess_data api demo_missing)))) =
        map cpgSite (probe_rows (methylation_data demo_missing))"
    unfolding preprocess_data_def
    by (simp add: Let_def dropna_all_demo_missing comp_def)
  then show ?thesis
    unfolding demo_missing_def by simp
qed

section \<open>Properties of \<^verbatim>\<open>identify_significant_cpg_sites\<close>\<close>

text \<open>The groups of the source are the groups of the specification.\<close>

lemma masked_samples:
  "map fst (filter snd (zip rows (map P rows))) = filter P rows"
  by (induction rows) auto

lemma group_sample_ids_matching:
  assumes "group_sample_ids md f g = Inr ids"
  shows "ids = map SampleID (matching_samples md f g)"
proof -
  have "field_equals md f g = Inr (map (\<lambda>s. sample_field md f s = Some g) (sample_rows md))"
    if "field_equals md f g \<noteq> Inl KeyError"
    using that unfolding field_equals_def sample_field_def
    by (auto split: option.splits if_splits)
  moreover have "field_equals md f g \<noteq> Inl KeyError"
    using assms unfolding group_sample_ids_def by (auto split: sum.splits)
  ultimately show ?thesis
    using assms unfolding group_sample_ids_def matching_samples_def
    by (simp add: masked_samples)
qed

text \<open>No call of the source raises one of the exceptions of the specification.\<close>

lemma ttest_ind_error:
  "ttest_ind api pvalue ob a b = Inl e \<Longrightarrow> e \<in> {TypeError, ValueError, AttributeError}"
  unfolding ttest_ind_def
  by (auto split: if_splits scipy_api.splits option.splits)

lemma series_get_error: "series_get cols r l = Inl e \<Longrightarrow> e = KeyError"
  unfolding series_get_def by (auto split: if_splits option.splits)

lemma series_select_error: "series_select cols r ls = Inl e \<Longrightarrow> e = KeyError"
  by (induction ls arbitrary: e) (auto split: sum.splits dest: series_get_error)

lemma row_pvalue_error:
  "row_pvalue api pvalue m g1 g2 r = Inl e \<Longrightarrow>
     e \<in> {KeyError, TypeError, ValueError, AttributeError}"
  unfolding row_pvalue_def
  by (auto split: sum.splits dest: series_select_error ttest_ind_error)

lemma significant_loop_error:
  "significant_loop api pvalue m g1 g2 t rows acc = Inl e \<Longrightarrow>
     e \<in> {KeyError, TypeError, ValueError, AttributeError}"
proof (induction rows arbitrary: acc)
  case Nil
  then show ?case by simp
next
  case (Cons r rows)
  show ?case
  proof (cases "row_pvalue api pvalue m g1 g2 r")
    case (Inl e')
    with Cons.prems have "e = e'" by simp
    with Inl show ?thesis by (auto dest: row_pvalue_error)
  next
    case (Inr p)
    with Cons.prems Cons.IH show ?thesis by simp
  qed
qed

lemma group_sample_ids_error: "group_sample_ids md f g = Inl e \<Longrightarrow> e = KeyError"
  unfolding group_sample_ids_def field_equals_def
  by (auto split: sum.splits if_splits option.splits)

lemma identify_significant_error:
  "identify_significant_cpg_sites api pvalue st f v1 v2 t = Inl e \<Longrightarrow>
     e \<in> {KeyError, TypeError, ValueError, AttributeError}"
  unfolding identify_significant_cpg_sites_def
  by (auto split: sum.splits dest: group_sample_ids_error significant_loop_error)

text \<open>With an empty group no test gives a number, so nothing is appended.\<close>

lemma ttest_ind_empty:
  "a = [] \<or> b = [] \<Longrightarrow> ttest_ind api pvalue ob a b = Inr p \<Longrightarrow> p = None"
  unfolding ttest_ind_def
  by (auto split: if_splits scipy_api.splits option.splits)

lemma series_select_Nil: "series_select cols r [] = Inr []"
  by simp

lemma row_pvalue_empty:
  assumes "g1 = [] \<or> g2 = []" and "row_pvalue api pvalue m g1 g2 r = Inr p"
  shows "p = None"
proof -
  obtain s1 s2 where s: "series_select (sample_columns m) r g1 = Inr s1"
      "series_select (sample_columns m) r g2 = Inr s2"
      "ttest_ind api pvalue (object_rows m) (dropna s1) (dropna s2) = Inr p"
    using assms(2) unfolding row_pvalue_def by (auto split: sum.splits)
  from assms(1) s(1,2) have "dropna s1 = [] \<or> dropna s2 = []"
    by auto
  then show ?thesis
    using s(3) by (rule ttest_ind_empty)
qed

lemma significant_loop_empty:
  assumes "g1 = [] \<or> g2 = []"
  shows "significant_loop api pvalue m g1 g2 t rows acc = Inr sites \<Longrightarrow> sites = acc"
proof (induction rows arbitrary: acc)
  case Nil
  then show ?case by simp
next
  case (Cons r rows)
  show ?case
  proof (cases "row_pvalue api pvalue m g1 g2 r")
    case (Inl e)
    with Cons.prems show ?thesis by simp
  next
    case (Inr p)
    with assms have "p = None" by (rule row_pvalue_empty)
    with Inr Cons.prems Cons.IH show ?thesis by simp
  qed
qed

subsection \<open>Evaluation on the sample analyzers\<close>

lemma demo_groups_ids:
  "group_sample_ids (metadata demo_groups) ''Disease'' ''Control'' = Inr [''a1'', ''a2'']"
  "group_sample_ids (metadata demo_groups) ''Disease'' ''COVID'' = Inr [''b1'', ''b2'']"
  "group_sample_ids (metadata demo_groups) ''Disease'' ''Flu'' = Inr []"
  unfolding group_sample_ids_def field_equals_def demo_groups_def category_at_def
  by simp_all

lemma demo_groups_object_rows: "object_rows (methylation_data demo_groups)"
  unfolding object_rows_def demo_groups_def by simp

lemma demo_groups_select:
  "series_select (sample_columns (methylation_data demo_groups))
     \<lparr>cpgSite = Some ''cgA'', levels = [Some (1/10), Some (1/10), Some (9/10), Some (9/10)]\<rparr>
     [''a1'', ''a2''] = Inr [Some (Level (1/10)), Some (Level (1/10))]"
  "series_select (sample_columns (methylation_data demo_groups))
     \<lparr>cpgSite = Some ''cgA'', levels = [Some (1/10), Some (1/10), Some (9/10), Some (9/10)]\<rparr>
     [''b1'', ''b2''] = Inr [Some (Level (9/10)), Some (Level (9/10))]"
  unfolding demo_groups_def series_get_def cell_at_def
  by (simp_all add: series_get_def cell_at_def)

lemma demo_groups_first_row:
  "row_pvalue Scipy_1_11 pvalue (methylation_data demo_groups) [''a1'', ''a2''] [''b1'', ''b2'']
     \<lparr>cpgSite = Some ''cgA'', levels = [Some (1/10), Some (1/10), Some (9/10), Some (9/10)]\<rparr> =
     Inl ValueError"
  "row_pvalue Scipy_1_17 pvalue (methylation_data demo_groups) [''a1'', ''a2''] [''b1'', ''b2'']
     \<lparr>cpgSite = Some ''cgA'', levels = [Some (1/10), Some (1/10), Some (9/10), Some (9/10)]\<rparr> =
     Inl AttributeError"
  unfolding row_pvalue_def demo_groups_select
  by (simp_all add: ttest_ind_def demo_groups_object_rows)

lemma demo_groups_loop:
  "significant_loop Scipy_1_11 pvalue (methylation_data demo_groups)
     [''a1'', ''a2''] [''b1'', ''b2''] t (probe_rows (methylation_data demo_groups)) [] =
     Inl ValueError"
  "significant_loop Scipy_1_17 pvalue (methylation_data demo_groups)
     [''a1'', ''a2''] [''b1'', ''b2''] t (probe_rows (methylation_data demo_groups)) [] =
     Inl AttributeError"
proof -
  have rows: "probe_rows (methylation_data demo_groups) =
      \<lparr>cpgSite = Some ''cgA'', levels = [Some (1/10), Some (1/10), Some (9/10), Some (9/10)]\<rparr> #
      tl (probe_rows (methylation_data demo_groups))"
    unfolding demo_groups_def by simp
  show "significant_loop Scipy_1_11 pvalue (methylation_data demo_groups)
     [''a1'', ''a2''] [''b1'', ''b2''] t (probe_rows (methylation_data demo_groups)) [] =
     Inl ValueError"
    by (subst rows) (simp add: demo_groups_first_row)
  show "significant_loop Scipy_1_17 pvalue (methylation_data demo_groups)
     [''a1'', ''a2''] [''b1'', ''b2''] t (probe_rows (methylation_data demo_groups)) [] =
     Inl AttributeError"
    by (subst rows) (simp add: demo_groups_first_row)
qed

lemma demo_groups_matching:
  "map SampleID (matching_samples (metadata demo_groups) ''Disease'' ''Control'') = [''a1'', ''a2'']"
  "map SampleID (matching_samples (metadata demo_groups) ''Disease'' ''COVID'') = [''b1'', ''b2'']"
  "matching_samples (metadata demo_groups) ''Disease'' ''Flu'' = []"
  unfolding matching_samples_def sample_field_def demo_groups_def category_at_def
  by simp_all

lemma demo_groups_empty_group_loop:
  "significant_loop Scipy_1_11 pvalue (methylation_data demo_groups)
     [''a1'', ''a2''] [] t (probe_rows (methylation_data demo_groups)) [] = Inr []"
  "significant_loop Scipy_1_11 pvalue (methylation_data demo_groups)
     [] [''b1'', ''b2''] t (probe_rows (methylation_data demo_groups)) [] = Inr []"
  "significant_loop Scipy_1_17 pvalue (methylation_data demo_groups)
     [''a1'', ''a2''] [] t (probe_rows (methylation_data demo_groups)) [] = Inl AttributeError"
  unfolding demo_groups_def
  by (simp_all add: row_pvalue_def ttest_ind_def object_rows_def series_get_def cell_at_def)

lemma demo_one_value_ids:
  "group_sample_ids (metadata demo_one_value) ''Disease'' ''Control'' = Inr [''a1'', ''a2'']"
  "group_sample_ids (metadata demo_one_value) ''Disease'' ''COVID'' = Inr [''b1'', ''b2'']"
  unfolding group_sample_ids_def field_equals_def demo_one_value_def category_at_def
  by simp_all

lemma demo_one_value_select:
  "map (series_select (sample_columns (methylation_data demo_one_value))
         (hd (probe_rows (methylation_data demo_one_value))))
     [[''a1'', ''a2''], [''b1'', ''b2'']] =
   [Inr [Some (Level (1/10)), None], Inr [Some (Level (9/10)), Some (Level (9/10))]]"
  unfolding demo_one_value_def
  by (simp add: series_get_def cell_at_def)

lemma demo_one_value_loop:
  "significant_loop Scipy_1_11 pvalue (methylation_data demo_one_value)
     [''a1'', ''a2''] [''b1'', ''b2''] t (probe_rows (methylation_data demo_one_value)) [] =
     Inl ValueError"
  "significant_loop Scipy_1_17 pvalue (methylation_data demo_one_value)
     [''a1'', ''a2''] [''b1'', ''b2''] t (probe_rows (methylation_data demo_one_value)) [] =
     Inl AttributeError"
  unfolding demo_one_value_def
  by (simp_all add: row_pvalue_def ttest_ind_def object_rows_def series_get_def cell_at_def)

subsection \<open>The claims on \<^verbatim>\<open>identify_significant_cpg_sites\<close>\<close>

text \<open>
  Claim C1, evaluated on the code. The field \<^verbatim>\<open>Disease\<close> has the values \<^verbatim>\<open>Control\<close> and
  \<^verbatim>\<open>COVID\<close>, each matching two samples, all of them columns of the matrix. The claim gives
  the list of the probes below the threshold. The code returns no list: the rows of a
  frame with a text column reach \<^verbatim>\<open>ttest_ind\<close> with the dtype \<^verbatim>\<open>object\<close>, and on the first
  probe the call raises \<^verbatim>\<open>ValueError\<close> (scipy 1.11) or \<^verbatim>\<open>AttributeError\<close> (scipy 1.17),
  whatever the threshold.
\<close>

theorem identify_significant_cpg_sites_raises_on_text_frame:
  "map SampleID (matching_samples (metadata demo_groups) ''Disease'' ''Control'') = [''a1'', ''a2''] \<and>
   map SampleID (matching_samples (metadata demo_groups) ''Disease'' ''COVID'') = [''b1'', ''b2''] \<and>
   identify_significant_cpg_sites Scipy_1_11 pvalue demo_groups ''Disease'' ''Control'' ''COVID'' t =
     Inl ValueError \<and>
   identify_significant_cpg_sites Scipy_1_17 pvalue demo_groups ''Disease'' ''Control'' ''COVID'' t =
     Inl AttributeError"
  unfolding identify_significant_cpg_sites_def
  by (simp add: demo_groups_matching demo_groups_ids demo_groups_loop)

text \<open>
  Claim C4 fails on the code: with the category value \<^verbatim>\<open>Flu\<close>, which matches no sample,
  the call returns the empty list under scipy 1.11 and raises the \<^verbatim>\<open>AttributeError\<close> of
  \<^verbatim>\<open>ttest_ind\<close> under scipy 1.17. The source has no check of the group sizes and no
  \<^verbatim>\<open>GroupNotFoundError\<close>.
\<close>

theorem identify_significant_cpg_sites_empty_group_counterexample:
  "matching_samples (metadata demo_groups) ''Disease'' ''Flu'' = [] \<and>
   identify_significant_cpg_sites Scipy_1_11 flat_pvalue demo_groups
     ''Disease'' ''Control'' ''Flu'' (1/20) = Inr [] \<and>
   identify_significant_cpg_sites Scipy_1_17 flat_pvalue demo_groups
     ''Disease'' ''Control'' ''Flu'' (1/20) = Inl AttributeError"
  unfolding identify_significant_cpg_sites_def
  by (simp add: demo_groups_matching demo_groups_ids demo_groups_empty_group_loop)

text \<open>
  Claim C4 as amended. When one of the two category values matches no sample of the
  group field, the call does not raise \<^verbatim>\<open>GroupNotFoundError\<close>, and whenever it returns
  it returns the empty list.
\<close>

theorem identify_significant_cpg_sites_empty_group:
  assumes "matching_samples (metadata st) f v1 = [] \<or> matching_samples (metadata st) f v2 = []"
  shows "identify_significant_cpg_sites api pvalue st f v1 v2 t \<noteq> Inl GroupNotFoundError \<and>
         (\<forall>sites. identify_significant_cpg_sites api pvalue st f v1 v2 t = Inr sites \<longrightarrow>
                  sites = [])"
proof (intro conjI allI impI)
  show "identify_significant_cpg_sites api pvalue st f v1 v2 t \<noteq> Inl GroupNotFoundError"
    using identify_significant_error [of api pvalue st f v1 v2 t GroupNotFoundError] by auto
next
  fix sites
  assume ret: "identify_significant_cpg_sites api pvalue st f v1 v2 t = Inr sites"
  then obtain g1 g2 where g: "group_sample_ids (metadata st) f v1 = Inr g1"
      "group_sample_ids (metadata st) f v2 = Inr g2"
    and loop: "significant_loop api pvalue (methylation_data st) g1 g2 t
                 (probe_rows (methylation_data st)) [] = Inr sites"
    unfolding identify_significant_cpg_sites_def by (auto split: sum.splits)
  from g have "g1 = map SampleID (matching_samples (metadata st) f v1)"
    and "g2 = map SampleID (matching_samples (metadata st) f v2)"
    by (simp_all add: group_sample_ids_matching)
  with assms have "g1 = [] \<or> g2 = []" by auto
  then show "sites = []"
    using loop by (rule significant_loop_empty)
qed

theorem identify_significant_cpg_sites_empty_group_witness:
  "matching_samples (metadata demo_groups) ''Disease'' ''Flu'' = [] \<and>
   identify_significant_cpg_sites Scipy_1_11 flat_pvalue demo_groups
     ''Disease'' ''Flu'' ''COVID'' (1/20) = Inr []"
proof -
  have m: "matching_samples (metadata demo_groups) ''Disease'' ''Flu'' = [] \<or>
           matching_samples (metadata demo_groups) ''Disease'' ''COVID'' = []"
    by (simp add: demo_groups_matching)
  have "\<exists>sites. identify_significant_cpg_sites Scipy_1_11 flat_pvalue demo_groups
     ''Disease'' ''Flu'' ''COVID'' (1/20) = Inr sites"
    unfolding identify_significant_cpg_sites_def
    by (simp add: demo_groups_ids demo_groups_empty_group_loop)
  then show ?thesis
    using identify_significant_cpg_sites_empty_group
      [OF m, of Scipy_1_11 flat_pvalue "1/20"]
    by (auto simp: demo_groups_matching)
qed

text \<open>
  Claim C7, evaluated on the code. For the probe \<^verbatim>\<open>cgC\<close> the group \<^verbatim>\<open>Control\<close> has one
  available value and the group \<^verbatim>\<open>COVID\<close> two. The claim has the call return without
  that probe. The code raises: the sample of one value is a non-empty \<^verbatim>\<open>object\<close> array,
  on which \<^verbatim>\<open>ttest_ind\<close> raises \<^verbatim>\<open>ValueError\<close> (scipy 1.11) or \<^verbatim>\<open>AttributeError\<close>
  (scipy 1.17) before any statistic is \<^verbatim>\<open>NaN\<close>.
\<close>

theorem identify_significant_cpg_sites_raises_on_single_value:
  "map (series_select (sample_columns (methylation_data demo_one_value))
         (hd (probe_rows (methylation_data demo_one_value))))
     [[''a1'', ''a2''], [''b1'', ''b2'']] =
     [Inr [Some (Level (1/10)), None], Inr [Some (Level (9/10)), Some (Level (9/10))]] \<and>
   identify_significant_cpg_sites Scipy_1_11 pvalue demo_one_value
     ''Disease'' ''Control'' ''COVID'' t = Inl ValueError \<and>
   identify_significant_cpg_sites Scipy_1_17 pvalue demo_one_value
     ''Disease'' ''Control'' ''COVID'' t = Inl AttributeError"
  unfolding identify_significant_cpg_sites_def
  by (simp only: demo_one_value_select demo_one_value_ids demo_one_value_loop sum.case simp_thms)

section \<open>Properties of \<^verbatim>\<open>plot_cpg_against_age\<close>\<close>

lemma probe_against_age_absent:
  assumes "Some cpg_site \<notin> set (map cpgSite (probe_rows (methylation_data st)))"
  shows "probe_against_age st cpg_site = Inl KeyError"
proof -
  have "filter (\<lambda>r. cpgSite r = Some cpg_site) (probe_rows (methylation_data st)) = []"
    using assms by (force simp: filter_empty_conv)
  then show ?thesis
    unfolding probe_against_age_def by simp
qed

text \<open>
  Claim C5 fails on the code in the name of the exception: for \<^verbatim>\<open>cgZ\<close>, which is in no
  row, \<^verbatim>\<open>plot_cpg_against_age\<close> raises the \<^verbatim>\<open>KeyError\<close> of \<^verbatim>\<open>loc\<close>. The source has no
  \<^verbatim>\<open>ProbeNotFoundError\<close>.
\<close>

theorem plot_cpg_against_age_absent_counterexample:
  "Some ''cgZ'' \<notin> set (map cpgSite (probe_rows (methylation_data demo_groups))) \<and>
   fst (plot_cpg_against_age demo_groups [] ''cgZ'') = Inl KeyError \<and>
   fst (plot_cpg_against_age demo_groups [] ''cgZ'') \<noteq> Inl ProbeNotFoundError"
proof -
  have a: "Some ''cgZ'' \<notin> set (map cpgSite (probe_rows (methylation_data demo_groups)))"
    unfolding demo_groups_def by simp
  then have "fst (plot_cpg_against_age demo_groups [] ''cgZ'') = Inl KeyError"
    unfolding plot_cpg_against_age_def by (simp add: probe_against_age_absent)
  with a show ?thesis by simp
qed

text \<open>
  Claim C5 as amended. For every probe identifier absent from the methylation matrix,
  \<^verbatim>\<open>plot_cpg_against_age\<close> raises \<^verbatim>\<open>KeyError\<close>, renders no chart and leaves the analyzer
  as it was.
\<close>

theorem plot_cpg_against_age_absent:
  assumes "Some cpg_site \<notin> set (map cpgSite (probe_rows (methylation_data st)))"
  shows "plot_cpg_against_age st shown cpg_site = (Inl KeyError, st, shown)"
  unfolding plot_cpg_against_age_def
  by (simp add: probe_against_age_absent [OF assms])

theorem plot_cpg_against_age_absent_witness:
  "Some ''cgZ'' \<notin> set (map cpgSite (probe_rows (methylation_data demo_groups))) \<and>
   plot_cpg_against_age demo_groups [] ''cgZ'' = (Inl KeyError, demo_groups, [])"
proof -
  have a: "Some ''cgZ'' \<notin> set (map cpgSite (probe_rows (methylation_data demo_groups)))"
    unfolding demo_groups_def by simp
  then show ?thesis
    using plot_cpg_against_age_absent [OF a, of "[]"] by simp
qed

section \<open>Properties of the programs on the store\<close>

subsection \<open>Which programs keep the objects\<close>

lemma keeps_objects_return: "keeps_objects (py_return x)"
  unfolding keeps_objects_def py_return_def by simp

lemma keeps_objects_raise: "keeps_objects (py_raise e)"
  unfolding keeps_objects_def py_raise_def by simp

lemma keeps_objects_lift: "keeps_objects (py_lift r)"
  unfolding keeps_objects_def py_lift_def by simp

lemma keeps_objects_get_matrix: "keeps_objects (get_matrix a)"
  unfolding keeps_objects_def get_matrix_def by (simp split: pyobj.splits)

lemma keeps_objects_get_table: "keeps_objects (get_table a)"
  unfolding keeps_objects_def get_table_def by (simp split: pyobj.splits)

lemma keeps_objects_new_object: "keeps_objects (new_object ob)"
  unfolding keeps_objects_def new_object_def by simp

lemma keeps_objects_show_chart: "keeps_objects (show_chart c)"
  unfolding keeps_objects_def show_chart_def by simp

lemma take_whole_length: "take (length ys) xs = ys \<Longrightarrow> length ys \<le> length xs"
  by (cases "length ys \<le> length xs") auto

lemma take_shorter: "m \<le> n \<Longrightarrow> take n xs = ys \<Longrightarrow> take m xs = take m ys"
  by (auto simp: min_absorb1)

lemma keeps_objects_bind:
  assumes p: "keeps_objects p" and f: "\<And>x. keeps_objects (f x)"
  shows "keeps_objects (py_bind p f)"
  unfolding keeps_objects_def
proof
  fix s
  obtain r s1 where run: "p s = (r, s1)"
    by (cases "p s")
  from p run have pre: "take (length (objects s)) (objects s1) = objects s"
    unfolding keeps_objects_def by (metis snd_conv)
  then have le: "length (objects s) \<le> length (objects s1)"
    by (rule take_whole_length)
  show "take (length (objects s)) (objects (snd (py_bind p f s))) = objects s"
  proof (cases r)
    case (Inl e)
    with run pre show ?thesis
      unfolding py_bind_def by simp
  next
    case (Inr x)
    from f [of x] have "take (length (objects s1)) (objects (snd (f x s1))) = objects s1"
      unfolding keeps_objects_def by blast
    then have "take (length (objects s)) (objects (snd (f x s1))) =
        take (length (objects s)) (objects s1)"
      by (rule take_shorter [OF le])
    with run Inr pre show ?thesis
      unfolding py_bind_def by simp
  qed
qed

lemmas keeps_objects_rules =
  keeps_objects_bind keeps_objects_return keeps_objects_raise keeps_objects_lift
  keeps_objects_get_matrix keeps_objects_get_table keeps_objects_new_object
  keeps_objects_show_chart

lemma keeps_objects_select_group: "keeps_objects (select_group a f g)"
  unfolding select_group_def by (intro keeps_objects_rules)

lemma keeps_objects_merge_probe: "keeps_objects (merge_probe self cpg_site)"
  unfolding merge_probe_def by (intro keeps_objects_rules)

lemma keeps_objects_identify_stable:
  "keeps_objects (identify_stable_cpg_sites_prog self threshold)"
  unfolding identify_stable_cpg_sites_prog_def by (intro keeps_objects_rules)

lemma keeps_objects_identify_significant:
  "keeps_objects (identify_significant_cpg_sites_prog api pvalue self f v1 v2 t)"
  unfolding identify_significant_cpg_sites_prog_def
  by (intro keeps_objects_rules keeps_objects_select_group)

lemma keeps_objects_plot:
  "keeps_objects (plot_cpg_against_age_prog self cpg_site)"
  unfolding plot_cpg_against_age_prog_def
  by (intro keeps_objects_bind keeps_objects_merge_probe)
    (auto split: option.splits intro!: keeps_objects_rules)

lemma keeps_objects_correlation:
  "keeps_objects (correlation_prog self cpg_sites correlations)"
proof (induction cpg_sites arbitrary: correlations)
  case Nil
  show ?case by (simp add: keeps_objects_return)
next
  case (Cons c cs)
  show ?case
    by (simp only: correlation_prog.simps)
      (intro keeps_objects_rules keeps_objects_merge_probe Cons.IH)
qed

lemma keeps_objects_visualize:
  "keeps_objects (visualize_correlation_with_age_prog self cpg_sites)"
  unfolding visualize_correlation_with_age_prog_def by (rule keeps_objects_correlation)

lemma preprocess_data_prog_demo:
  "objects (snd (preprocess_data_prog api demo_self demo_store)) ! 0 \<noteq> objects demo_store ! 0"
proof -
  have d: "dropna_all (methylation_data demo_blank) =
      \<lparr>sample_columns = [''s1'', ''s2''],
       probe_rows = [\<lparr>cpgSite = Some ''cg1'', levels = [Some (1/5), Some (2/5)]\<rparr>]\<rparr>"
    unfolding dropna_all_def row_all_missing_def demo_blank_def by simp
  have "\<exists>m. objects (snd (preprocess_data_prog api demo_self demo_store)) ! 0 = Matrix m \<and>
            length (probe_rows m) = 1"
    unfolding preprocess_data_prog_def demo_self_def demo_store_def py_bind_def get_matrix_def
      replace_object_def py_raise_def
    by (simp add: d fillna_def)
  moreover have "objects demo_store ! 0 = Matrix (methylation_data demo_blank)"
    and "length (probe_rows (methylation_data demo_blank)) = 2"
    unfolding demo_store_def demo_blank_def by simp_all
  ultimately show ?thesis by auto
qed

subsection \<open>The programs compute what the functions compute\<close>

lemma analyzer_at_refs:
  assumes "analyzer_at self s = Some st"
  shows "methylation_ref self < length (objects s)"
    and "metadata_ref self < length (objects s)"
    and "objects s ! methylation_ref self = Matrix (methylation_data st)"
    and "objects s ! metadata_ref self = Table (metadata st)"
  using assms unfolding analyzer_at_def
  by (auto split: if_splits pyobj.splits)

lemma get_matrix_at:
  "analyzer_at self s = Some st \<Longrightarrow>
     get_matrix (methylation_ref self) s = (Inr (methylation_data st), s)"
  unfolding get_matrix_def by (simp add: analyzer_at_refs)

lemma get_table_at:
  "analyzer_at self s = Some st \<Longrightarrow>
     get_table (metadata_ref self) s = (Inr (metadata st), s)"
  unfolding get_table_def by (simp add: analyzer_at_refs)

lemma analyzer_at_append:
  "analyzer_at self s = Some st \<Longrightarrow>
     analyzer_at self (s\<lparr>objects := objects s @ obs\<rparr>) = Some st"
  unfolding analyzer_at_def
  by (auto split: if_splits pyobj.splits simp: nth_append)

lemma analyzer_at_screen: "analyzer_at self (s\<lparr>screen := c\<rparr>) = analyzer_at self s"
  unfolding analyzer_at_def by simp

lemma identify_stable_prog_result:
  assumes "analyzer_at self s = Some st"
  shows "fst (identify_stable_cpg_sites_prog self t s) = Inr (identify_stable_cpg_sites st t)"
proof -
  let ?s1 = "s\<lparr>objects := objects s @ [Levels (map levels (probe_rows (methylation_data st)))]\<rparr>"
  have "analyzer_at self ?s1 = Some st"
    using assms by (rule analyzer_at_append)
  then show ?thesis
    unfolding identify_stable_cpg_sites_prog_def identify_stable_cpg_sites_def row_variances_def
    by (simp add: py_bind_def py_return_def new_object_def get_matrix_at [OF assms]
        get_matrix_at comp_def)
qed

lemma select_group_result:
  assumes "analyzer_at self s = Some st"
  shows "fst (select_group (metadata_ref self) f g s) = group_sample_ids (metadata st) f g"
    and "analyzer_at self (snd (select_group (metadata_ref self) f g s)) = Some st"
    and "screen (snd (select_group (metadata_ref self) f g s)) = screen s"
  unfolding select_group_def group_sample_ids_def
  using assms
  by (auto simp: py_bind_def py_return_def py_lift_def new_object_def get_table_at [OF assms]
      analyzer_at_append [OF assms] split: sum.splits)

lemma identify_significant_prog_result:
  assumes "analyzer_at self s = Some st"
  shows "fst (identify_significant_cpg_sites_prog api pvalue self f v1 v2 t s) =
           identify_significant_cpg_sites api pvalue st f v1 v2 t"
proof -
  obtain r1 s1 where one: "select_group (metadata_ref self) f v1 s = (r1, s1)"
    by (cases "select_group (metadata_ref self) f v1 s")
  with select_group_result [OF assms, of f v1]
  have r1: "r1 = group_sample_ids (metadata st) f v1" and a1: "analyzer_at self s1 = Some st"
    by simp_all
  obtain r2 s2 where two: "select_group (metadata_ref self) f v2 s1 = (r2, s2)"
    by (cases "select_group (metadata_ref self) f v2 s1")
  with select_group_result [OF a1, of f v2]
  have r2: "r2 = group_sample_ids (metadata st) f v2" and a2: "analyzer_at self s2 = Some st"
    by simp_all
  show ?thesis
    unfolding identify_significant_cpg_sites_prog_def identify_significant_cpg_sites_def
    using r1 r2
    by (auto simp: py_bind_def py_lift_def one two get_matrix_at [OF a2] split: sum.splits)
qed

lemma merge_probe_result:
  assumes "analyzer_at self s = Some st"
  shows "fst (merge_probe self cpg_site s) = probe_against_age st cpg_site"
    and "analyzer_at self (snd (merge_probe self cpg_site s)) = Some st"
    and "screen (snd (merge_probe self cpg_site s)) = screen s"
proof -
  let ?s1 = "s\<lparr>objects := objects s @ [Matrix (methylation_data st)]\<rparr>"
  have a1: "analyzer_at self ?s1 = Some st"
    using assms by (rule analyzer_at_append)
  have st: "\<lparr>methylation_data = methylation_data st, metadata = metadata st\<rparr> = st"
    by simp
  have run: "merge_probe self cpg_site s =
      (case probe_against_age st cpg_site of
         Inl e \<Rightarrow> (Inl e, ?s1)
       | Inr merged \<Rightarrow> (Inr merged, ?s1\<lparr>objects := objects ?s1 @ [Joined merged]\<rparr>))"
    unfolding merge_probe_def
    by (simp add: py_bind_def py_return_def py_lift_def new_object_def get_matrix_at [OF assms]
        get_table_at [OF a1] st split: sum.splits)
  show "fst (merge_probe self cpg_site s) = probe_against_age st cpg_site"
    unfolding run by (simp split: sum.splits)
  show "analyzer_at self (snd (merge_probe self cpg_site s)) = Some st"
    unfolding run using a1 analyzer_at_append [OF a1] by (simp split: sum.splits)
  show "screen (snd (merge_probe self cpg_site s)) = screen s"
    unfolding run by (simp split: sum.splits)
qed

lemma plot_prog_result:
  assumes "analyzer_at self s = Some st"
  shows "fst (plot_cpg_against_age_prog self cpg_site s) =
           fst (plot_cpg_against_age st (screen s) cpg_site)"
    and "screen (snd (plot_cpg_against_age_prog self cpg_site s)) =
           snd (snd (plot_cpg_against_age st (screen s) cpg_site))"
proof -
  obtain r s1 where run: "merge_probe self cpg_site s = (r, s1)"
    by (cases "merge_probe self cpg_site s")
  with merge_probe_result [OF assms, of cpg_site]
  have r: "r = probe_against_age st cpg_site" and sc: "screen s1 = screen s"
    by simp_all
  show "fst (plot_cpg_against_age_prog self cpg_site s) =
           fst (plot_cpg_against_age st (screen s) cpg_site)"
    unfolding plot_cpg_against_age_prog_def plot_cpg_against_age_def
    using r
    by (auto simp: py_bind_def py_raise_def show_chart_def run split: sum.splits option.splits)
  show "screen (snd (plot_cpg_against_age_prog self cpg_site s)) =
           snd (snd (plot_cpg_against_age st (screen s) cpg_site))"
    unfolding plot_cpg_against_age_prog_def plot_cpg_against_age_def
    using r sc
    by (auto simp: py_bind_def py_raise_def show_chart_def run split: sum.splits option.splits)
qed

lemma correlation_prog_result:
  assumes "analyzer_at self s = Some st"
  shows "fst (correlation_prog self cpg_sites correlations s) =
           fst (correlation_loop st cpg_sites correlations (screen s)) \<and>
         screen (snd (correlation_prog self cpg_sites correlations s)) =
           snd (correlation_loop st cpg_sites correlations (screen s))"
  using assms
proof (induction cpg_sites arbitrary: correlations s)
  case Nil
  show ?case by (simp add: py_return_def)
next
  case (Cons c cs)
  obtain r s1 where run: "merge_probe self c s = (r, s1)"
    by (cases "merge_probe self c s")
  with merge_probe_result [OF Cons.prems, of c]
  have r: "r = probe_against_age st c" and a1: "analyzer_at self s1 = Some st"
    and sc: "screen s1 = screen s"
    by simp_all
  show ?case
  proof (cases "probe_against_age st c")
    case (Inl e)
    with r run show ?thesis
      by (simp add: py_bind_def sc)
  next
    case merged: (Inr merged_data)
    show ?thesis
    proof (cases "pearsonr merged_data")
      case (Inl e)
      with merged r run show ?thesis
        by (simp add: py_bind_def py_lift_def sc)
    next
      case (Inr corr)
      let ?s2 = "s1\<lparr>screen := screen s1 @ [Correlation c merged_data corr]\<rparr>"
      have "analyzer_at self ?s2 = Some st"
        using a1 by (simp add: analyzer_at_screen)
      then have ih:
        "fst (correlation_prog self cs (correlations(c \<mapsto> corr)) ?s2) =
           fst (correlation_loop st cs (correlations(c \<mapsto> corr)) (screen ?s2)) \<and>
         screen (snd (correlation_prog self cs (correlations(c \<mapsto> corr)) ?s2)) =
           snd (correlation_loop st cs (correlations(c \<mapsto> corr)) (screen ?s2))"
        by (rule Cons.IH)
      have step_prog: "correlation_prog self (c # cs) correlations s =
          correlation_prog self cs (correlations(c \<mapsto> corr)) ?s2"
        using merged Inr r run
        by (simp add: py_bind_def py_lift_def show_chart_def del: fun_upd_apply)
      have step_loop: "correlation_loop st (c # cs) correlations (screen s) =
          correlation_loop st cs (correlations(c \<mapsto> corr)) (screen ?s2)"
        using merged Inr by (simp add: sc del: fun_upd_apply)
      show ?thesis
        unfolding step_prog step_loop by (rule ih)
    qed
  qed
qed

lemma visualize_prog_result:
  assumes "analyzer_at self s = Some st"
  shows "fst (visualize_correlation_with_age_prog self cpg_sites s) =
           fst (visualize_correlation_with_age st (screen s) cpg_sites)"
    and "screen (snd (visualize_correlation_with_age_prog self cpg_sites s)) =
           snd (snd (visualize_correlation_with_age st (screen s) cpg_sites))"
  using correlation_prog_result [OF assms, of cpg_sites Map.empty]
  unfolding visualize_correlation_with_age_prog_def visualize_correlation_with_age_def
  by (simp_all split: prod.splits)

lemma preprocess_prog_result:
  assumes "analyzer_at self s = Some st"
  shows "analyzer_at self (snd (preprocess_data_prog api self s)) =
           Some (snd (preprocess_data api st))"
    and "fst (preprocess_data_prog api self s) =
           (case fst (preprocess_data api st) of None \<Rightarrow> Inr () | Some e \<Rightarrow> Inl e)"
proof -
  note refs = analyzer_at_refs [OF assms]
  have ne: "metadata_ref self \<noteq> methylation_ref self"
    using refs(3,4) by auto
  have at: "analyzer_at self (s\<lparr>objects := (objects s)[methylation_ref self := Matrix m]\<rparr>) =
      Some (st\<lparr>methylation_data := m\<rparr>)" for m
    unfolding analyzer_at_def using refs ne by simp
  show "analyzer_at self (snd (preprocess_data_prog api self s)) =
           Some (snd (preprocess_data api st))"
    unfolding preprocess_data_prog_def preprocess_data_def
    using refs ne
    by (simp add: py_bind_def py_raise_def replace_object_def get_matrix_def Let_def
        analyzer_at_def)
  show "fst (preprocess_data_prog api self s) =
           (case fst (preprocess_data api st) of None \<Rightarrow> Inr () | Some e \<Rightarrow> Inl e)"
    unfolding preprocess_data_prog_def preprocess_data_def
    using refs ne
    by (simp add: py_bind_def py_raise_def replace_object_def get_matrix_def Let_def)
qed

subsection \<open>The stored tables\<close>

lemma keeps_objects_analyzer_at:
  assumes "keeps_objects p" and "analyzer_at self s = Some st"
  shows "analyzer_at self (snd (p s)) = Some st"
proof -
  note refs = analyzer_at_refs [OF assms(2)]
  from assms(1) have pre: "take (length (objects s)) (objects (snd (p s))) = objects s"
    unfolding keeps_objects_def by blast
  then have le: "length (objects s) \<le> length (objects (snd (p s)))"
    by (rule take_whole_length)
  have same: "objects (snd (p s)) ! a = objects s ! a" if "a < length (objects s)" for a
    using that nth_take [of a "length (objects s)" "objects (snd (p s))"] pre by simp
  show ?thesis
    unfolding analyzer_at_def using refs le by (simp add: same)
qed

lemma analyzer_at_demo_store: "analyzer_at demo_self demo_store = Some demo_blank"
  unfolding analyzer_at_def demo_self_def demo_store_def by simp

text \<open>
  Claim C9. \<^verbatim>\<open>identify_stable_cpg_sites\<close>, \<^verbatim>\<open>identify_significant_cpg_sites\<close>,
  \<^verbatim>\<open>plot_cpg_against_age\<close> and \<^verbatim>\<open>visualize_correlation_with_age\<close> are made of calls that
  read the tables of \<^verbatim>\<open>self\<close> and return new objects: from every store each object that
  was there before the call is the same after it, whether the call returns or raises,
  and so the methylation matrix and the metadata of the analyzer are. \<^verbatim>\<open>preprocess_data\<close>
  does not keep the objects: with its \<^verbatim>\<open>inplace=True\<close> calls it changes the stored
  matrix, under both generations of pandas.
\<close>

theorem queries_keep_stored_tables:
  assumes "analyzer_at self s = Some st"
  shows "keeps_objects (identify_stable_cpg_sites_prog self t) \<and>
         keeps_objects (identify_significant_cpg_sites_prog scipy pvalue self f v1 v2 p) \<and>
         keeps_objects (plot_cpg_against_age_prog self cpg_site) \<and>
         keeps_objects (visualize_correlation_with_age_prog self cpg_sites) \<and>
         analyzer_at self (snd (identify_stable_cpg_sites_prog self t s)) = Some st \<and>
         analyzer_at self
           (snd (identify_significant_cpg_sites_prog scipy pvalue self f v1 v2 p s)) = Some st \<and>
         analyzer_at self (snd (plot_cpg_against_age_prog self cpg_site s)) = Some st \<and>
         analyzer_at self (snd (visualize_correlation_with_age_prog self cpg_sites s)) = Some st \<and>
         \<not> keeps_objects (preprocess_data_prog pandas demo_self) \<and>
         analyzer_at demo_self (snd (preprocess_data_prog pandas demo_self demo_store)) \<noteq>
           analyzer_at demo_self demo_store"
proof -
  have changed: "analyzer_at demo_self (snd (preprocess_data_prog pandas demo_self demo_store)) \<noteq>
      analyzer_at demo_self demo_store"
  proof
    assume "analyzer_at demo_self (snd (preprocess_data_prog pandas demo_self demo_store)) =
      analyzer_at demo_self demo_store"
    then have "analyzer_at demo_self (snd (preprocess_data_prog pandas demo_self demo_store)) =
      Some demo_blank"
      by (simp add: analyzer_at_demo_store)
    then have "objects (snd (preprocess_data_prog pandas demo_self demo_store)) ! 0 =
      Matrix (methylation_data demo_blank)"
      using analyzer_at_refs(3) [of demo_self _ demo_blank] by (simp add: demo_self_def)
    then show False
      using preprocess_data_prog_demo [of pandas] by (simp add: demo_store_def)
  qed
  have "\<not> keeps_objects (preprocess_data_prog pandas demo_self)"
    using keeps_objects_analyzer_at [OF _ analyzer_at_demo_store] changed
    by (auto simp: analyzer_at_demo_store)
  with changed show ?thesis
    using keeps_objects_identify_stable [of self t]
      keeps_objects_identify_significant [of scipy pvalue self f v1 v2 p]
      keeps_objects_plot [of self cpg_site]
      keeps_objects_visualize [of self cpg_sites]
      keeps_objects_analyzer_at [OF keeps_objects_identify_stable [of self t] assms]
      keeps_objects_analyzer_at
        [OF keeps_objects_identify_significant [of scipy pvalue self f v1 v2 p] assms]
      keeps_objects_analyzer_at [OF keeps_objects_plot [of self cpg_site] assms]
      keeps_objects_analyzer_at [OF keeps_objects_visualize [of self cpg_sites] assms]
    by simp
qed

theorem queries_keep_stored_tables_witness:
  "analyzer_at demo_self demo_store = Some demo_blank \<and>
   analyzer_at demo_self (snd (identify_stable_cpg_sites_prog demo_self (1/100) demo_store)) =
     Some demo_blank \<and>
   analyzer_at demo_self
     (snd (identify_significant_cpg_sites_prog Scipy_1_11 flat_pvalue demo_self
             ''Disease'' ''Control'' ''COVID'' (1/20) demo_store)) = Some demo_blank \<and>
   analyzer_at demo_self (snd (plot_cpg_against_age_prog demo_self ''cg1'' demo_store)) =
     Some demo_blank \<and>
   analyzer_at demo_self
     (snd (visualize_correlation_with_age_prog demo_self [''cg1''] demo_store)) = Some demo_blank \<and>
   analyzer_at demo_self (snd (preprocess_data_prog Pandas1 demo_self demo_store)) \<noteq>
     Some demo_blank"
  using queries_keep_stored_tables
    [OF analyzer_at_demo_store, of "1/100" Scipy_1_11 flat_pvalue "''Disease''" "''Control''"
       "''COVID''" "1/20" "''cg1''" "[''cg1'']" Pandas1]
  by (simp add: analyzer_at_demo_store)

end
